theory Spec2Isabelle
  imports Main
begin

section \<open>Data model (app/models.py)\<close>

text \<open>
  The tables of app/models.py as records, the database session as a record of row lists
  in insertion order. A nullable column is an \<open>option\<close>. The \<open>created_at\<close> columns are
  filled by a column default at insert and are read by no service function modelled here;
  they are left out. \<open>datetime.utcnow()\<close> is the parameter \<open>now\<close> of the functions
  that call it.
\<close>

type_synonym datetime = nat

record operator =
  op_id :: int
  op_name :: string
  op_is_active :: bool
  max_active_contacts :: int

record source =
  src_id :: int
  src_name :: string
  code :: string
  description :: "string option"
  src_is_active :: "bool option"

record assignment =
  asg_id :: int
  operator_id :: int
  source_id :: int
  weight :: int

record lead =
  lead_id :: int
  external_id :: string
  name :: "string option"
  phone :: "string option"
  email :: "string option"

record contact =
  contact_id :: int
  c_lead_id :: int
  c_source_id :: int
  c_operator_id :: "int option"
  status :: string
  message :: "string option"
  assigned_at :: "datetime option"
  closed_at :: "datetime option"

record db =
  operators :: "operator list"
  sources :: "source list"
  assignments :: "assignment list"
  leads :: "lead list"
  contacts :: "contact list"

text \<open>The request bodies of app/schemas.py that the services read.\<close>

record assignment_create =
  ac_operator_id :: int
  ac_source_id :: int
  ac_weight :: int

record contact_create =
  lead_external_id :: string
  source_code :: string
  cc_message :: "string option"
  lead_name :: "string option"
  lead_phone :: "string option"
  lead_email :: "string option"

datatype error = ValueError string | AttributeError | IndexError | ZeroDivisionError

section \<open>String literals of app/services.py\<close>

text \<open>
  Python's \<open>str\<close> is modelled as the UTF-8 bytes of the text. The Russian literals of the
  source are named constants.
\<close>

definition msg_no_assignments :: string where
  \<comment> \<open>UTF-8 bytes of the literal, transliterated: Net operatorov, naznachennykh na dannyi istochnik (no operators assigned to this source)\<close>
  "msg_no_assignments =
    [CHR 0xD0, CHR 0x9D, CHR 0xD0, CHR 0xB5, CHR 0xD1, CHR 0x82, CHR 0x20, CHR 0xD0,
     CHR 0xBE, CHR 0xD0, CHR 0xBF, CHR 0xD0, CHR 0xB5, CHR 0xD1, CHR 0x80, CHR 0xD0,
     CHR 0xB0, CHR 0xD1, CHR 0x82, CHR 0xD0, CHR 0xBE, CHR 0xD1, CHR 0x80, CHR 0xD0,
     CHR 0xBE, CHR 0xD0, CHR 0xB2, CHR 0x2C, CHR 0x20, CHR 0xD0, CHR 0xBD, CHR 0xD0,
     CHR 0xB0, CHR 0xD0, CHR 0xB7, CHR 0xD0, CHR 0xBD, CHR 0xD0, CHR 0xB0, CHR 0xD1,
     CHR 0x87, CHR 0xD0, CHR 0xB5, CHR 0xD0, CHR 0xBD, CHR 0xD0, CHR 0xBD, CHR 0xD1,
     CHR 0x8B, CHR 0xD1, CHR 0x85, CHR 0x20, CHR 0xD0, CHR 0xBD, CHR 0xD0, CHR 0xB0,
     CHR 0x20, CHR 0xD0, CHR 0xB4, CHR 0xD0, CHR 0xB0, CHR 0xD0, CHR 0xBD, CHR 0xD0,
     CHR 0xBD, CHR 0xD1, CHR 0x8B, CHR 0xD0, CHR 0xB9, CHR 0x20, CHR 0xD0, CHR 0xB8,
     CHR 0xD1, CHR 0x81, CHR 0xD1, CHR 0x82, CHR 0xD0, CHR 0xBE, CHR 0xD1, CHR 0x87,
     CHR 0xD0, CHR 0xBD, CHR 0xD0, CHR 0xB8, CHR 0xD0, CHR 0xBA]"

definition txt_inactive :: string where
  \<comment> \<open>UTF-8 bytes of the literal, transliterated: : neaktiven (inactive)\<close>
  "txt_inactive =
    [CHR 0x3A, CHR 0x20, CHR 0xD0, CHR 0xBD, CHR 0xD0, CHR 0xB5, CHR 0xD0, CHR 0xB0,
     CHR 0xD0, CHR 0xBA, CHR 0xD1, CHR 0x82, CHR 0xD0, CHR 0xB8, CHR 0xD0, CHR 0xB2,
     CHR 0xD0, CHR 0xB5, CHR 0xD0, CHR 0xBD]"

definition txt_limit_reached :: string where
  \<comment> \<open>UTF-8 bytes of the literal, transliterated: : dostignut limit ( (limit reached)\<close>
  "txt_limit_reached =
    [CHR 0x3A, CHR 0x20, CHR 0xD0, CHR 0xB4, CHR 0xD0, CHR 0xBE, CHR 0xD1, CHR 0x81,
     CHR 0xD1, CHR 0x82, CHR 0xD0, CHR 0xB8, CHR 0xD0, CHR 0xB3, CHR 0xD0, CHR 0xBD,
     CHR 0xD1, CHR 0x83, CHR 0xD1, CHR 0x82, CHR 0x20, CHR 0xD0, CHR 0xBB, CHR 0xD0,
     CHR 0xB8, CHR 0xD0, CHR 0xBC, CHR 0xD0, CHR 0xB8, CHR 0xD1, CHR 0x82, CHR 0x20,
     CHR 0x28]"

definition txt_unknown_reason :: string where
  \<comment> \<open>UTF-8 bytes of the literal, transliterated: Neizvestnaya prichina (unknown reason)\<close>
  "txt_unknown_reason =
    [CHR 0xD0, CHR 0x9D, CHR 0xD0, CHR 0xB5, CHR 0xD0, CHR 0xB8, CHR 0xD0, CHR 0xB7,
     CHR 0xD0, CHR 0xB2, CHR 0xD0, CHR 0xB5, CHR 0xD1, CHR 0x81, CHR 0xD1, CHR 0x82,
     CHR 0xD0, CHR 0xBD, CHR 0xD0, CHR 0xB0, CHR 0xD1, CHR 0x8F, CHR 0x20, CHR 0xD0,
     CHR 0xBF, CHR 0xD1, CHR 0x80, CHR 0xD0, CHR 0xB8, CHR 0xD1, CHR 0x87, CHR 0xD0,
     CHR 0xB8, CHR 0xD0, CHR 0xBD, CHR 0xD0, CHR 0xB0]"

definition txt_no_available :: string where
  \<comment> \<open>UTF-8 bytes of the literal, transliterated: Net dostupnykh operatorov. Prichiny:  (no available operators; reasons)\<close>
  "txt_no_available =
    [CHR 0xD0, CHR 0x9D, CHR 0xD0, CHR 0xB5, CHR 0xD1, CHR 0x82, CHR 0x20, CHR 0xD0,
     CHR 0xB4, CHR 0xD0, CHR 0xBE, CHR 0xD1, CHR 0x81, CHR 0xD1, CHR 0x82, CHR 0xD1,
     CHR 0x83, CHR 0xD0, CHR 0xBF, CHR 0xD0, CHR 0xBD, CHR 0xD1, CHR 0x8B, CHR 0xD1,
     CHR 0x85, CHR 0x20, CHR 0xD0, CHR 0xBE, CHR 0xD0, CHR 0xBF, CHR 0xD0, CHR 0xB5,
     CHR 0xD1, CHR 0x80, CHR 0xD0, CHR 0xB0, CHR 0xD1, CHR 0x82, CHR 0xD0, CHR 0xBE,
     CHR 0xD1, CHR 0x80, CHR 0xD0, CHR 0xBE, CHR 0xD0, CHR 0xB2, CHR 0x2E, CHR 0x20,
     CHR 0xD0, CHR 0x9F, CHR 0xD1, CHR 0x80, CHR 0xD0, CHR 0xB8, CHR 0xD1, CHR 0x87,
     CHR 0xD0, CHR 0xB8, CHR 0xD0, CHR 0xBD, CHR 0xD1, CHR 0x8B, CHR 0x3A, CHR 0x20]"

definition txt_weight :: string where
  \<comment> \<open>UTF-8 bytes of the literal, transliterated: : ves  (weight)\<close>
  "txt_weight =
    [CHR 0x3A, CHR 0x20, CHR 0xD0, CHR 0xB2, CHR 0xD0, CHR 0xB5, CHR 0xD1, CHR 0x81,
     CHR 0x20]"

definition txt_selected :: string where
  \<comment> \<open>UTF-8 bytes of the literal, transliterated: Vybran  (selected)\<close>
  "txt_selected =
    [CHR 0xD0, CHR 0x92, CHR 0xD1, CHR 0x8B, CHR 0xD0, CHR 0xB1, CHR 0xD1, CHR 0x80,
     CHR 0xD0, CHR 0xB0, CHR 0xD0, CHR 0xBD, CHR 0x20]"

definition txt_from :: string where
  \<comment> \<open>UTF-8 bytes of the literal, transliterated:  iz [ (from)\<close>
  "txt_from =
    [CHR 0x20, CHR 0xD0, CHR 0xB8, CHR 0xD0, CHR 0xB7, CHR 0x20, CHR 0x5B]"

definition txt_source_with_code :: string where
  \<comment> \<open>UTF-8 bytes of the literal, transliterated: Istochnik s kodom ' (source with code)\<close>
  "txt_source_with_code =
    [CHR 0xD0, CHR 0x98, CHR 0xD1, CHR 0x81, CHR 0xD1, CHR 0x82, CHR 0xD0, CHR 0xBE,
     CHR 0xD1, CHR 0x87, CHR 0xD0, CHR 0xBD, CHR 0xD0, CHR 0xB8, CHR 0xD0, CHR 0xBA,
     CHR 0x20, CHR 0xD1, CHR 0x81, CHR 0x20, CHR 0xD0, CHR 0xBA, CHR 0xD0, CHR 0xBE,
     CHR 0xD0, CHR 0xB4, CHR 0xD0, CHR 0xBE, CHR 0xD0, CHR 0xBC, CHR 0x20, CHR 0x27]"

definition txt_not_found :: string where
  \<comment> \<open>UTF-8 bytes of the literal, transliterated: ' ne naiden (not found)\<close>
  "txt_not_found =
    [CHR 0x27, CHR 0x20, CHR 0xD0, CHR 0xBD, CHR 0xD0, CHR 0xB5, CHR 0x20, CHR 0xD0,
     CHR 0xBD, CHR 0xD0, CHR 0xB0, CHR 0xD0, CHR 0xB9, CHR 0xD0, CHR 0xB4, CHR 0xD0,
     CHR 0xB5, CHR 0xD0, CHR 0xBD]"

definition txt_source :: string where
  \<comment> \<open>UTF-8 bytes of the literal, transliterated: Istochnik ' (source)\<close>
  "txt_source =
    [CHR 0xD0, CHR 0x98, CHR 0xD1, CHR 0x81, CHR 0xD1, CHR 0x82, CHR 0xD0, CHR 0xBE,
     CHR 0xD1, CHR 0x87, CHR 0xD0, CHR 0xBD, CHR 0xD0, CHR 0xB8, CHR 0xD0, CHR 0xBA,
     CHR 0x20, CHR 0x27]"

definition txt_is_inactive :: string where
  \<comment> \<open>UTF-8 bytes of the literal, transliterated: ' neaktiven (is inactive)\<close>
  "txt_is_inactive =
    [CHR 0x27, CHR 0x20, CHR 0xD0, CHR 0xBD, CHR 0xD0, CHR 0xB5, CHR 0xD0, CHR 0xB0,
     CHR 0xD0, CHR 0xBA, CHR 0xD1, CHR 0x82, CHR 0xD0, CHR 0xB8, CHR 0xD0, CHR 0xB2,
     CHR 0xD0, CHR 0xB5, CHR 0xD0, CHR 0xBD]"

definition txt_new_lead :: string where
  \<comment> \<open>UTF-8 bytes of the literal, transliterated: sozdan novyi lid (a new lead was created)\<close>
  "txt_new_lead =
    [CHR 0xD1, CHR 0x81, CHR 0xD0, CHR 0xBE, CHR 0xD0, CHR 0xB7, CHR 0xD0, CHR 0xB4,
     CHR 0xD0, CHR 0xB0, CHR 0xD0, CHR 0xBD, CHR 0x20, CHR 0xD0, CHR 0xBD, CHR 0xD0,
     CHR 0xBE, CHR 0xD0, CHR 0xB2, CHR 0xD1, CHR 0x8B, CHR 0xD0, CHR 0xB9, CHR 0x20,
     CHR 0xD0, CHR 0xBB, CHR 0xD0, CHR 0xB8, CHR 0xD0, CHR 0xB4]"

definition txt_existing_lead :: string where
  \<comment> \<open>UTF-8 bytes of the literal, transliterated: naiden sushchestvuyushchii lid (an existing lead was found)\<close>
  "txt_existing_lead =
    [CHR 0xD0, CHR 0xBD, CHR 0xD0, CHR 0xB0, CHR 0xD0, CHR 0xB9, CHR 0xD0, CHR 0xB4,
     CHR 0xD0, CHR 0xB5, CHR 0xD0, CHR 0xBD, CHR 0x20, CHR 0xD1, CHR 0x81, CHR 0xD1,
     CHR 0x83, CHR 0xD1, CHR 0x89, CHR 0xD0, CHR 0xB5, CHR 0xD1, CHR 0x81, CHR 0xD1,
     CHR 0x82, CHR 0xD0, CHR 0xB2, CHR 0xD1, CHR 0x83, CHR 0xD1, CHR 0x8E, CHR 0xD1,
     CHR 0x89, CHR 0xD0, CHR 0xB8, CHR 0xD0, CHR 0xB9, CHR 0x20, CHR 0xD0, CHR 0xBB,
     CHR 0xD0, CHR 0xB8, CHR 0xD0, CHR 0xB4]"

definition msg_contact_not_found :: string where
  \<comment> \<open>UTF-8 bytes of the literal, transliterated: Obrashchenie ne naideno (contact not found)\<close>
  "msg_contact_not_found =
    [CHR 0xD0, CHR 0x9E, CHR 0xD0, CHR 0xB1, CHR 0xD1, CHR 0x80, CHR 0xD0, CHR 0xB0,
     CHR 0xD1, CHR 0x89, CHR 0xD0, CHR 0xB5, CHR 0xD0, CHR 0xBD, CHR 0xD0, CHR 0xB8,
     CHR 0xD0, CHR 0xB5, CHR 0x20, CHR 0xD0, CHR 0xBD, CHR 0xD0, CHR 0xB5, CHR 0x20,
     CHR 0xD0, CHR 0xBD, CHR 0xD0, CHR 0xB0, CHR 0xD0, CHR 0xB9, CHR 0xD0, CHR 0xB4,
     CHR 0xD0, CHR 0xB5, CHR 0xD0, CHR 0xBD, CHR 0xD0, CHR 0xBE]"

definition msg_closed_contact :: string where
  \<comment> \<open>UTF-8 bytes of the literal, transliterated: Nel'zya perenaznachit' zakrytoe obrashchenie (a closed contact cannot be reassigned)\<close>
  "msg_closed_contact =
    [CHR 0xD0, CHR 0x9D, CHR 0xD0, CHR 0xB5, CHR 0xD0, CHR 0xBB, CHR 0xD1, CHR 0x8C,
     CHR 0xD0, CHR 0xB7, CHR 0xD1, CHR 0x8F, CHR 0x20, CHR 0xD0, CHR 0xBF, CHR 0xD0,
     CHR 0xB5, CHR 0xD1, CHR 0x80, CHR 0xD0, CHR 0xB5, CHR 0xD0, CHR 0xBD, CHR 0xD0,
     CHR 0xB0, CHR 0xD0, CHR 0xB7, CHR 0xD0, CHR 0xBD, CHR 0xD0, CHR 0xB0, CHR 0xD1,
     CHR 0x87, CHR 0xD0, CHR 0xB8, CHR 0xD1, CHR 0x82, CHR 0xD1, CHR 0x8C, CHR 0x20,
     CHR 0xD0, CHR 0xB7, CHR 0xD0, CHR 0xB0, CHR 0xD0, CHR 0xBA, CHR 0xD1, CHR 0x80,
     CHR 0xD1, CHR 0x8B, CHR 0xD1, CHR 0x82, CHR 0xD0, CHR 0xBE, CHR 0xD0, CHR 0xB5,
     CHR 0x20, CHR 0xD0, CHR 0xBE, CHR 0xD0, CHR 0xB1, CHR 0xD1, CHR 0x80, CHR 0xD0,
     CHR 0xB0, CHR 0xD1, CHR 0x89, CHR 0xD0, CHR 0xB5, CHR 0xD0, CHR 0xBD, CHR 0xD0,
     CHR 0xB8, CHR 0xD0, CHR 0xB5]"

section \<open>Python helpers\<close>

text \<open>\<open>str(n)\<close> for an integer, as an f-string renders it.\<close>

definition digit_char :: "nat \<Rightarrow> char" where
  "digit_char n = char_of (48 + n)"

fun str_nat :: "nat \<Rightarrow> string" where
  "str_nat n = (if n < 10 then [digit_char n] else str_nat (n div 10) @ [digit_char (n mod 10)])"

declare str_nat.simps [simp del]

definition str_int :: "int \<Rightarrow> string" where
  "str_int i = (if i < 0 then CHR ''-'' # str_nat (nat (- i)) else str_nat (nat i))"

text \<open>\<open>sep.join(xs)\<close>.\<close>

fun join :: "string \<Rightarrow> string list \<Rightarrow> string" where
  "join sep [] = []"
| "join sep [x] = x"
| "join sep (x # y # ys) = x @ sep @ join sep (y # ys)"

text \<open>
  Truthiness of an \<open>Optional[str]\<close>: \<open>None\<close> and the empty string are false.
\<close>

definition truthy :: "string option \<Rightarrow> bool" where
  "truthy s = (s \<noteq> None \<and> s \<noteq> Some [])"

text \<open>
  \<open>random.choice(xs)\<close> raises IndexError on an empty sequence and otherwise returns the
  element at an index drawn uniformly below \<open>len(xs)\<close>. The draw is the parameter \<open>r\<close>,
  reduced below the length.
\<close>

definition random_choice :: "'a list \<Rightarrow> nat \<Rightarrow> error + 'a" where
  "random_choice xs r = (if xs = [] then Inl IndexError else Inr (xs ! (r mod length xs)))"

text \<open>
  The primary key of an inserted row: one more than the largest key of the table (1 for
  an empty table), as SQLite assigns an INTEGER PRIMARY KEY.
\<close>

definition next_id :: "int list \<Rightarrow> int" where
  "next_id ids = foldr max ids 0 + 1"

section \<open>OperatorService, SourceService\<close>

definition is_active_status :: "string \<Rightarrow> bool" where
  "is_active_status s = (s \<in> set [''new'', ''in_progress''])"

definition get_active_contacts_count :: "db \<Rightarrow> int \<Rightarrow> int" where
  "get_active_contacts_count d oid =
     int (length (filter (\<lambda>c. c_operator_id c = Some oid \<and> is_active_status (status c))
                         (contacts d)))"

definition get_operator :: "db \<Rightarrow> int \<Rightarrow> operator option" where
  \<comment> \<open>the relationship \<open>assignment.operator\<close>: the operator row of the foreign key\<close>
  "get_operator d oid = find (\<lambda>p. op_id p = oid) (operators d)"

definition get_by_code :: "db \<Rightarrow> string \<Rightarrow> source option" where
  "get_by_code d c = find (\<lambda>s. code s = c) (sources d)"

section \<open>AssignmentService\<close>

definition create_or_update :: "db \<Rightarrow> assignment_create \<Rightarrow> db \<times> assignment" where
  "create_or_update d data =
     (case find (\<lambda>a. operator_id a = ac_operator_id data \<and> source_id a = ac_source_id data)
                (assignments d) of
        Some existing \<Rightarrow>
          (d\<lparr>assignments :=
               map (\<lambda>a. if asg_id a = asg_id existing then a\<lparr>weight := ac_weight data\<rparr> else a)
                   (assignments d)\<rparr>,
           existing\<lparr>weight := ac_weight data\<rparr>)
      | None \<Rightarrow>
          (let assignment = \<lparr>asg_id = next_id (map asg_id (assignments d)),
                             operator_id = ac_operator_id data,
                             source_id = ac_source_id data,
                             weight = ac_weight data\<rparr>
           in (d\<lparr>assignments := assignments d @ [assignment]\<rparr>, assignment)))"

section \<open>LeadService\<close>

text \<open>
  \<open>get_or_create\<close>: each of the three tests \<open>if name and not lead.name\<close> is a flag
  (\<open>set_name\<close>, \<open>set_phone\<close>, \<open>set_email\<close>); the source's \<open>updated\<close> is true when one of
  them is. The commit writes the three columns of the row with the lead's primary key.
\<close>

definition get_or_create ::
  "db \<Rightarrow> string \<Rightarrow> string option \<Rightarrow> string option \<Rightarrow> string option \<Rightarrow> db \<times> lead \<times> bool" where
  "get_or_create d ext nm ph em =
     (case find (\<lambda>l. external_id l = ext) (leads d) of
        Some lead0 \<Rightarrow>
          (let set_name = (truthy nm \<and> \<not> truthy (name lead0));
               lead1 = (if set_name then lead0\<lparr>name := nm\<rparr> else lead0);
               set_phone = (truthy ph \<and> \<not> truthy (phone lead1));
               lead2 = (if set_phone then lead1\<lparr>phone := ph\<rparr> else lead1);
               set_email = (truthy em \<and> \<not> truthy (email lead2));
               lead3 = (if set_email then lead2\<lparr>email := em\<rparr> else lead2);
               updated = (set_name \<or> set_phone \<or> set_email)
           in if updated
              then (d\<lparr>leads :=
                       map (\<lambda>l. if lead_id l = lead_id lead0
                                then l\<lparr>name := name lead3, phone := phone lead3,
                                       email := email lead3\<rparr>
                                else l)
                           (leads d)\<rparr>,
                    lead3, False)
              else (d, lead3, False))
      | None \<Rightarrow>
          (let lead0 = \<lparr>lead_id = next_id (map lead_id (leads d)), external_id = ext,
                        name = nm, phone = ph, email = em\<rparr>
           in (d\<lparr>leads := leads d @ [lead0]\<rparr>, lead0, True)))"

section \<open>DistributionService\<close>

record available =
  av_operator :: operator
  av_weight :: int
  av_current_load :: int

text \<open>
  The loop of \<open>select_operator\<close> over the assignments of the source; the two
  accumulators are \<open>available_operators\<close> and \<open>unavailable_reasons\<close>. Reading an
  attribute of \<open>assignment.operator\<close> raises AttributeError when the foreign key finds
  no operator row.
\<close>

fun filter_operators ::
  "db \<Rightarrow> assignment list \<Rightarrow> available list \<Rightarrow> string list
     \<Rightarrow> error + (available list \<times> string list)" where
  "filter_operators d [] available_operators unavailable_reasons =
     Inr (available_operators, unavailable_reasons)"
| "filter_operators d (a # rest) available_operators unavailable_reasons =
     (case get_operator d (operator_id a) of
        None \<Rightarrow> Inl AttributeError
      | Some p \<Rightarrow>
          if \<not> op_is_active p
          then filter_operators d rest available_operators
                 (unavailable_reasons @ [op_name p @ txt_inactive])
          else (let current_load = get_active_contacts_count d (op_id p)
                in if current_load \<ge> max_active_contacts p
                   then filter_operators d rest available_operators
                          (unavailable_reasons @
                             [op_name p @ txt_limit_reached @ str_int current_load @ ''/''
                                @ str_int (max_active_contacts p) @ '')''])
                   else filter_operators d rest
                          (available_operators @
                             [\<lparr>av_operator = p, av_weight = weight a,
                               av_current_load = current_load\<rparr>])
                          unavailable_reasons))"

definition weighted_choices :: "available list \<Rightarrow> operator list" where
  "weighted_choices available_operators =
     concat (map (\<lambda>op_data. replicate (nat (av_weight op_data)) (av_operator op_data))
                 available_operators)"

definition distribution_desc :: "available list \<Rightarrow> int \<Rightarrow> string" where
  "distribution_desc available_operators total_weight =
     join '', ''
       (map (\<lambda>p. op_name (av_operator p) @ txt_weight @ str_int (av_weight p) @ '' (''
                  @ str_int (av_weight p * 100 div total_weight) @ ''%)'')
            available_operators)"

definition select_operator :: "db \<Rightarrow> int \<Rightarrow> nat \<Rightarrow> error + (operator option \<times> string)" where
  "select_operator d sid r =
     (let asgs = filter (\<lambda>a. source_id a = sid) (assignments d)
      in if asgs = [] then Inr (None, msg_no_assignments)
         else
           case filter_operators d asgs [] [] of
             Inl e \<Rightarrow> Inl e
           | Inr (available_operators, unavailable_reasons) \<Rightarrow>
               if available_operators = []
               then (let reasons = (if unavailable_reasons \<noteq> []
                                    then join ''; '' unavailable_reasons
                                    else txt_unknown_reason)
                     in Inr (None, txt_no_available @ reasons))
               else (let total_weight = sum_list (map av_weight available_operators)
                     in case random_choice (weighted_choices available_operators) r of
                          Inl e \<Rightarrow> Inl e
                        | Inr selected_operator \<Rightarrow>
                            if total_weight = 0 then Inl ZeroDivisionError
                            else Inr (Some selected_operator,
                                      txt_selected @ op_name selected_operator @ txt_from
                                        @ distribution_desc available_operators total_weight
                                        @ '']'')))"

section \<open>ContactService\<close>

text \<open>
  The functions return the database after the call together with the result; a raised
  exception is \<open>Inl\<close>, and the database beside it holds what was committed before the raise.
\<close>

definition create ::
  "db \<Rightarrow> datetime \<Rightarrow> nat \<Rightarrow> contact_create \<Rightarrow> db \<times> (error + contact \<times> string)" where
  "create d now r data =
     (case get_by_code d (source_code data) of
        None \<Rightarrow> (d, Inl (ValueError (txt_source_with_code @ source_code data @ txt_not_found)))
      | Some src \<Rightarrow>
          if src_is_active src \<noteq> Some True
          then (d, Inl (ValueError (txt_source @ source_code data @ txt_is_inactive)))
          else
            (let (d1, lead0, is_new_lead) =
                   get_or_create d (lead_external_id data) (lead_name data) (lead_phone data)
                     (lead_email data)
             in case select_operator d1 (src_id src) r of
                  Inl e \<Rightarrow> (d1, Inl e)
                | Inr (opr, distribution_info) \<Rightarrow>
                    (let c = \<lparr>contact_id = next_id (map contact_id (contacts d1)),
                              c_lead_id = lead_id lead0,
                              c_source_id = src_id src,
                              c_operator_id = map_option op_id opr,
                              status = (if opr \<noteq> None then ''new'' else ''new''),
                              message = cc_message data,
                              assigned_at = (if opr \<noteq> None then Some now else None),
                              closed_at = None\<rparr>;
                         lead_info = (if is_new_lead then txt_new_lead else txt_existing_lead)
                     in (d1\<lparr>contacts := contacts d1 @ [c]\<rparr>,
                         Inr (c, lead_info @ ''; '' @ distribution_info)))))"

definition get_by_id :: "db \<Rightarrow> int \<Rightarrow> contact option" where
  "get_by_id d cid = find (\<lambda>c. contact_id c = cid) (contacts d)"

definition update_status :: "db \<Rightarrow> datetime \<Rightarrow> int \<Rightarrow> string \<Rightarrow> db \<times> contact option" where
  "update_status d now cid new_status =
     (case find (\<lambda>c. contact_id c = cid) (contacts d) of
        None \<Rightarrow> (d, None)
      | Some c0 \<Rightarrow>
          (let c1 = c0\<lparr>status := new_status\<rparr>;
               c2 = (if new_status = ''closed'' then c1\<lparr>closed_at := Some now\<rparr> else c1)
           in (d\<lparr>contacts :=
                    map (\<lambda>c. if contact_id c = contact_id c0
                             then c\<lparr>status := status c2, closed_at := closed_at c2\<rparr> else c)
                        (contacts d)\<rparr>,
               Some c2)))"

definition reassign ::
  "db \<Rightarrow> datetime \<Rightarrow> nat \<Rightarrow> int \<Rightarrow> db \<times> (error + contact option \<times> string)" where
  "reassign d now r cid =
     (case find (\<lambda>c. contact_id c = cid) (contacts d) of
        None \<Rightarrow> (d, Inr (None, msg_contact_not_found))
      | Some c0 \<Rightarrow>
          if status c0 = ''closed'' then (d, Inr (None, msg_closed_contact))
          else
            (case select_operator d (c_source_id c0) r of
               Inl e \<Rightarrow> (d, Inl e)
             | Inr (opr, info) \<Rightarrow>
                 (let c1 = c0\<lparr>c_operator_id := map_option op_id opr,
                             assigned_at := (if opr \<noteq> None then Some now else None)\<rparr>
                  in (d\<lparr>contacts :=
                           map (\<lambda>c. if contact_id c = contact_id c0
                                    then c\<lparr>c_operator_id := c_operator_id c1,
                                           assigned_at := assigned_at c1\<rparr>
                                    else c)
                               (contacts d)\<rparr>,
                      Inr (Some c1, info)))))"

section \<open>Predicates used by the properties\<close>

text \<open>
  The assignments of a source, in table order (the query of \<open>select_operator\<close> and of
  \<open>get_source_operators\<close>), and the rows of one (operator, source) pair.
\<close>

definition source_assignments :: "db \<Rightarrow> int \<Rightarrow> assignment list" where
  "source_assignments d sid = filter (\<lambda>a. source_id a = sid) (assignments d)"

definition same_pair :: "int \<Rightarrow> int \<Rightarrow> assignment \<Rightarrow> bool" where
  "same_pair oid sid a = (operator_id a = oid \<and> source_id a = sid)"

text \<open>
  What the schema guarantees of the assignments a property is about: the foreign key
  \<open>operator_id\<close> refers to an operator row, and the weight is at least 1
  (\<open>AssignmentCreate.weight\<close> is validated with \<open>ge=1\<close>).
\<close>

definition operators_exist :: "db \<Rightarrow> assignment list \<Rightarrow> bool" where
  "operators_exist d asgs = list_all (\<lambda>a. get_operator d (operator_id a) \<noteq> None) asgs"

definition positive_weights :: "assignment list \<Rightarrow> bool" where
  "positive_weights asgs = list_all (\<lambda>a. 1 \<le> weight a) asgs"

text \<open>
  Eligibility of an operator in a database (active, and load below the capacity), the
  reason given for an operator that is not eligible, and what one assignment contributes
  to the list of available operators and to the list of reasons.
\<close>

definition eligible :: "db \<Rightarrow> operator \<Rightarrow> bool" where
  "eligible d p =
     (op_is_active p \<and> get_active_contacts_count d (op_id p) < max_active_contacts p)"

definition exclusion_reason :: "db \<Rightarrow> operator \<Rightarrow> string" where
  "exclusion_reason d p =
     (if \<not> op_is_active p then op_name p @ txt_inactive
      else op_name p @ txt_limit_reached @ str_int (get_active_contacts_count d (op_id p))
             @ ''/'' @ str_int (max_active_contacts p) @ '')'')"

definition asg_available :: "db \<Rightarrow> assignment \<Rightarrow> available list" where
  "asg_available d a =
     (case get_operator d (operator_id a) of
        None \<Rightarrow> []
      | Some p \<Rightarrow>
          if eligible d p
          then [\<lparr>av_operator = p, av_weight = weight a,
                 av_current_load = get_active_contacts_count d (op_id p)\<rparr>]
          else [])"

definition asg_reason :: "db \<Rightarrow> assignment \<Rightarrow> string list" where
  "asg_reason d a =
     (case get_operator d (operator_id a) of
        None \<Rightarrow> []
      | Some p \<Rightarrow> if eligible d p then [] else [exclusion_reason d p])"

text \<open>
  The discrete weighted draw in the words of the specification: walk the eligible list
  with the cumulative weight and a uniform draw \<open>u\<close> in \<open>[0, totalWeight)\<close>; the
  operator whose weight interval contains \<open>u\<close> is chosen. It is compared below with
  what the source does (\<open>random_choice\<close> on \<open>weighted_choices\<close>).
\<close>

fun weighted_draw :: "available list \<Rightarrow> nat \<Rightarrow> operator option" where
  "weighted_draw [] u = None"
| "weighted_draw (x # xs) u =
     (if u < nat (av_weight x) then Some (av_operator x)
      else weighted_draw xs (u - nat (av_weight x)))"

text \<open>
  The value of a lead field after \<open>if new and not lead.field: lead.field = new\<close>.
\<close>

definition fill :: "string option \<Rightarrow> string option \<Rightarrow> string option" where
  "fill new old = (if truthy new \<and> \<not> truthy old then new else old)"

text \<open>
  A single-threaded run of creations: the requests are served one after the other, each
  on the database the previous one left.
\<close>

fun create_all ::
  "db \<Rightarrow> (datetime \<times> nat \<times> contact_create) list \<Rightarrow> db \<times> (error + contact \<times> string) list" where
  "create_all d [] = (d, [])"
| "create_all d ((now, r, data) # rest) =
     (let (d1, res) = create d now r data;
          (d2, ress) = create_all d1 rest
      in (d2, res # ress))"

text \<open>
  The operator \<open>p\<close> is active and is, through the assignment \<open>a\<close>, the only operator
  assigned to the active source \<open>src\<close> of code \<open>c\<close>.
\<close>

definition sole_operator :: "db \<Rightarrow> string \<Rightarrow> source \<Rightarrow> assignment \<Rightarrow> operator \<Rightarrow> bool" where
  "sole_operator d c src a p =
     (get_by_code d c = Some src \<and> src_is_active src = Some True
      \<and> source_assignments d (src_id src) = [a]
      \<and> get_operator d (operator_id a) = Some p \<and> op_is_active p \<and> 1 \<le> weight a)"

section \<open>Example data\<close>

text \<open>
  A small database on which the properties are instantiated: the operators Ann (active)
  and Bob (inactive), both of capacity 2; the sources telegram (Ann with weight 10 and Bob
  with weight 30) and wa (Bob only); one lead whose name is the empty string; a closed
  contact of Ann and an open contact without operator.
\<close>

definition op_ann :: operator where
  "op_ann = \<lparr>op_id = 1, op_name = ''Ann'', op_is_active = True, max_active_contacts = 2\<rparr>"

definition op_bob :: operator where
  "op_bob = \<lparr>op_id = 2, op_name = ''Bob'', op_is_active = False, max_active_contacts = 2\<rparr>"

definition op_eve :: operator where
  "op_eve = \<lparr>op_id = 3, op_name = ''Eve'', op_is_active = True, max_active_contacts = 2\<rparr>"

definition example_source_tg :: source where
  "example_source_tg =
     \<lparr>src_id = 1, src_name = ''Telegram'', code = ''telegram'', description = None,
      src_is_active = Some True\<rparr>"

definition example_source_wa :: source where
  "example_source_wa =
     \<lparr>src_id = 2, src_name = ''WhatsApp'', code = ''wa'', description = None,
      src_is_active = Some True\<rparr>"

definition example_contact_closed :: contact where
  "example_contact_closed =
     \<lparr>contact_id = 1, c_lead_id = 1, c_source_id = 1, c_operator_id = Some 1,
      status = ''closed'', message = None, assigned_at = Some 5, closed_at = Some 6\<rparr>"

definition example_contact_open :: contact where
  "example_contact_open =
     \<lparr>contact_id = 2, c_lead_id = 1, c_source_id = 1, c_operator_id = None,
      status = ''new'', message = None, assigned_at = None, closed_at = None\<rparr>"

definition example_contact_3 :: contact where
  "example_contact_3 =
     \<lparr>contact_id = 3, c_lead_id = 1, c_source_id = 2, c_operator_id = None,
      status = ''new'', message = None, assigned_at = None, closed_at = None\<rparr>"

definition example_db :: db where
  "example_db =
     \<lparr>operators = [op_ann, op_bob],
      sources = [\<lparr>src_id = 1, src_name = ''Telegram'', code = ''telegram'', description = None,
                  src_is_active = Some True\<rparr>,
                 \<lparr>src_id = 2, src_name = ''WhatsApp'', code = ''wa'', description = None,
                  src_is_active = Some True\<rparr>],
      assignments = [\<lparr>asg_id = 1, operator_id = 1, source_id = 1, weight = 10\<rparr>,
                     \<lparr>asg_id = 2, operator_id = 2, source_id = 1, weight = 30\<rparr>,
                     \<lparr>asg_id = 3, operator_id = 2, source_id = 2, weight = 5\<rparr>],
      leads = [\<lparr>lead_id = 1, external_id = ''user_1'', name = Some [], phone = None,
                email = Some ''u1@example.org''\<rparr>],
      contacts = [example_contact_closed, example_contact_open]\<rparr>"

text \<open>The example database before its lead exists, and with Ann alone on telegram.\<close>

definition example_db_fresh :: db where
  "example_db_fresh = example_db\<lparr>leads := []\<rparr>"

definition example_db_sole :: db where
  "example_db_sole =
     example_db\<lparr>assignments := [\<lparr>asg_id = 1, operator_id = 1, source_id = 1, weight = 10\<rparr>]\<rparr>"

text \<open>A list of eligible operators as the selection receives it.\<close>

definition example_available :: "available list" where
  "example_available =
     [\<lparr>av_operator = op_ann, av_weight = 10, av_current_load = 0\<rparr>,
      \<lparr>av_operator = op_eve, av_weight = 30, av_current_load = 0\<rparr>]"

text \<open>
  Requests of the lead \<open>user_1\<close>: the first carries the empty string as name, the later
  one a name and another e-mail address.
\<close>

definition example_request_first :: contact_create where
  "example_request_first =
     \<lparr>lead_external_id = ''user_1'', source_code = ''wa'', cc_message = None,
      lead_name = Some [], lead_phone = None, lead_email = Some ''u1@example.org''\<rparr>"

definition example_request :: contact_create where
  "example_request =
     \<lparr>lead_external_id = ''user_1'', source_code = ''wa'', cc_message = None,
      lead_name = Some ''Uma'', lead_phone = None, lead_email = Some ''other@example.org''\<rparr>"

definition example_requests :: "(datetime \<times> nat \<times> contact_create) list" where
  "example_requests =
     [(10, 0, example_request\<lparr>source_code := ''telegram''\<rparr>),
      (11, 5, example_request\<lparr>source_code := ''telegram''\<rparr>),
      (12, 7, example_request\<lparr>source_code := ''telegram''\<rparr>)]"

definition op_dan :: operator where
  "op_dan = \<lparr>op_id = 4, op_name = ''Dan'', op_is_active = True, max_active_contacts = 2\<rparr>"

text \<open>
  A database with three eligible operators on telegram, of weights 10, 30 and 30 (Bob is
  assigned too and is inactive), the list of eligible operators \<open>select_operator\<close>
  builds there, and the rationale it returns when Eve is drawn.
\<close>

definition example_db_three :: db where
  "example_db_three =
     \<lparr>operators = [op_ann, op_bob, op_eve, op_dan],
      sources = [example_source_tg],
      assignments = [\<lparr>asg_id = 1, operator_id = 1, source_id = 1, weight = 10\<rparr>,
                     \<lparr>asg_id = 2, operator_id = 2, source_id = 1, weight = 30\<rparr>,
                     \<lparr>asg_id = 3, operator_id = 3, source_id = 1, weight = 30\<rparr>,
                     \<lparr>asg_id = 4, operator_id = 4, source_id = 1, weight = 30\<rparr>],
      leads = [],
      contacts = []\<rparr>"

definition example_available_three :: "available list" where
  "example_available_three =
     [\<lparr>av_operator = op_ann, av_weight = 10, av_current_load = 0\<rparr>,
      \<lparr>av_operator = op_eve, av_weight = 30, av_current_load = 0\<rparr>,
      \<lparr>av_operator = op_dan, av_weight = 30, av_current_load = 0\<rparr>]"

definition example_rationale_three :: string where
  "example_rationale_three =
     txt_selected @ ''Eve'' @ txt_from @ ''Ann'' @ txt_weight @ ''10 (14%), Eve'' @ txt_weight
       @ ''30 (42%), Dan'' @ txt_weight @ ''30 (42%)]''"

section \<open>Properties of AssignmentService\<close>

lemma same_pair_lambda:
  "(\<lambda>a. operator_id a = oid \<and> source_id a = sid) = same_pair oid sid"
  by (simp add: same_pair_def fun_eq_iff)

lemma filter_map_preserve:
  "(\<And>x. P (f x) = P x) \<Longrightarrow> filter P (map f xs) = map f (filter P xs)"
  by (induction xs) auto

lemma find_Some_filter_single:
  "find P xs = Some x \<Longrightarrow> length (filter P xs) \<le> 1 \<Longrightarrow> filter P xs = [x]"
  by (induction xs) (auto split: if_splits)

lemma create_or_update_row:
  assumes "length (filter (same_pair oid sid) (assignments d)) \<le> 1"
    and "ac_operator_id data = oid" "ac_source_id data = sid"
  shows "\<exists>a. filter (same_pair oid sid) (assignments (fst (create_or_update d data))) = [a]
            \<and> weight a = ac_weight data \<and> snd (create_or_update d data) = a"
proof (cases "find (same_pair oid sid) (assignments d)")
  case None
  then have "filter (same_pair oid sid) (assignments d) = []"
    by (auto simp: find_None_iff filter_empty_conv)
  with None assms(2,3) show ?thesis
    by (simp add: create_or_update_def same_pair_lambda Let_def) (simp add: same_pair_def)
next
  case (Some existing)
  then have one: "filter (same_pair oid sid) (assignments d) = [existing]"
    using assms(1) by (rule find_Some_filter_single)
  have "filter (same_pair oid sid)
          (map (\<lambda>a. if asg_id a = asg_id existing then a\<lparr>weight := ac_weight data\<rparr> else a)
               (assignments d))
        = [existing\<lparr>weight := ac_weight data\<rparr>]"
    by (subst filter_map_preserve) (auto simp: same_pair_def one)
  with Some assms(2,3) show ?thesis
    by (simp add: create_or_update_def same_pair_lambda)
qed

text \<open>
  C9. Assignment creation is idempotent per (operator, source) pair. In a table that
  respects the unique constraint \<open>uq_operator_source\<close> (at most one row for the pair),
  calling \<open>create_or_update\<close> twice with the same pair and the weights \<open>w1\<close> and then
  \<open>w2\<close> leaves exactly one row for the pair; that row carries \<open>w2\<close> and is the row the
  second call returns.
\<close>

theorem create_or_update_idempotent:
  assumes "length (filter (same_pair oid sid) (assignments d)) \<le> 1"
  shows "\<exists>a. filter (same_pair oid sid)
               (assignments
                  (fst (create_or_update
                          (fst (create_or_update d
                                  \<lparr>ac_operator_id = oid, ac_source_id = sid, ac_weight = w1\<rparr>))
                          \<lparr>ac_operator_id = oid, ac_source_id = sid, ac_weight = w2\<rparr>))) = [a]
            \<and> weight a = w2
            \<and> snd (create_or_update
                      (fst (create_or_update d
                              \<lparr>ac_operator_id = oid, ac_source_id = sid, ac_weight = w1\<rparr>))
                      \<lparr>ac_operator_id = oid, ac_source_id = sid, ac_weight = w2\<rparr>) = a"
proof -
  let ?d1 = "fst (create_or_update d
                    \<lparr>ac_operator_id = oid, ac_source_id = sid, ac_weight = w1\<rparr>)"
  have "length (filter (same_pair oid sid) (assignments ?d1)) \<le> 1"
    using create_or_update_row [OF assms,
        of "\<lparr>ac_operator_id = oid, ac_source_id = sid, ac_weight = w1\<rparr>"]
    by auto
  from create_or_update_row [OF this,
      of "\<lparr>ac_operator_id = oid, ac_source_id = sid, ac_weight = w2\<rparr>"]
  show ?thesis by auto
qed

theorem create_or_update_idempotent_witness:
  "length (filter (same_pair 1 1)
             (assignments \<lparr>operators = [], sources = [], assignments = [], leads = [],
                           contacts = []\<rparr>)) \<le> 1
   \<and> (\<exists>a. filter (same_pair 1 1)
               (assignments
                  (fst (create_or_update
                          (fst (create_or_update
                                  \<lparr>operators = [], sources = [], assignments = [], leads = [],
                                    contacts = []\<rparr>
                                  \<lparr>ac_operator_id = 1, ac_source_id = 1, ac_weight = 10\<rparr>))
                          \<lparr>ac_operator_id = 1, ac_source_id = 1, ac_weight = 30\<rparr>))) = [a]
            \<and> weight a = 30
            \<and> snd (create_or_update
                      (fst (create_or_update
                              \<lparr>operators = [], sources = [], assignments = [], leads = [],
                                contacts = []\<rparr>
                              \<lparr>ac_operator_id = 1, ac_source_id = 1, ac_weight = 10\<rparr>))
                      \<lparr>ac_operator_id = 1, ac_source_id = 1, ac_weight = 30\<rparr>) = a)"
proof -
  have h: "length (filter (same_pair 1 1)
             (assignments \<lparr>operators = [], sources = [], assignments = [], leads = [],
                           contacts = []\<rparr>)) \<le> 1"
    by simp
  show ?thesis
    using h create_or_update_idempotent [OF h, of 10 30] by simp
qed

section \<open>Properties of DistributionService\<close>

lemma filter_operators_eq:
  "operators_exist d asgs \<Longrightarrow>
   filter_operators d asgs av un =
     Inr (av @ concat (map (asg_available d) asgs), un @ concat (map (asg_reason d) asgs))"
proof (induction asgs arbitrary: av un)
  case Nil
  then show ?case by simp
next
  case (Cons a rest)
  from Cons.prems obtain p where p: "get_operator d (operator_id a) = Some p"
    and rest: "operators_exist d rest"
    by (auto simp: operators_exist_def)
  show ?case
    using p Cons.IH [OF rest]
    by (simp add: asg_available_def asg_reason_def eligible_def exclusion_reason_def Let_def
        not_less)
qed

lemma asg_split_length:
  "operators_exist d asgs \<Longrightarrow>
   length (concat (map (asg_available d) asgs)) + length (concat (map (asg_reason d) asgs))
     = length asgs"
  by (induction asgs)
     (auto simp: operators_exist_def asg_available_def asg_reason_def)

lemma filter_operators_Inr_exist:
  "filter_operators d asgs av un = Inr res \<Longrightarrow> operators_exist d asgs"
  by (induction asgs arbitrary: av un)
     (auto simp: operators_exist_def Let_def split: option.splits if_splits)

lemma asg_reason_nth:
  assumes "operators_exist d asgs" "concat (map (asg_available d) asgs) = []"
  shows "concat (map (asg_reason d) asgs)
         = map (\<lambda>a. case get_operator d (operator_id a) of
                       Some p \<Rightarrow> exclusion_reason d p | None \<Rightarrow> []) asgs
         \<and> (\<forall>a\<in>set asgs. \<exists>p. get_operator d (operator_id a) = Some p \<and> \<not> eligible d p)"
  using assms
  by (induction asgs)
     (auto simp: operators_exist_def asg_available_def asg_reason_def split: if_splits)

lemma select_operator_unfold:
  "select_operator d sid r =
     (if source_assignments d sid = [] then Inr (None, msg_no_assignments)
      else case filter_operators d (source_assignments d sid) [] [] of
             Inl e \<Rightarrow> Inl e
           | Inr (av, un) \<Rightarrow>
               if av = []
               then Inr (None, txt_no_available
                                 @ (if un \<noteq> [] then join ''; '' un else txt_unknown_reason))
               else (case random_choice (weighted_choices av) r of
                       Inl e \<Rightarrow> Inl e
                     | Inr p \<Rightarrow>
                         if sum_list (map av_weight av) = 0 then Inl ZeroDivisionError
                         else Inr (Some p, txt_selected @ op_name p @ txt_from
                                     @ distribution_desc av (sum_list (map av_weight av))
                                     @ '']'')))"
  by (simp add: select_operator_def source_assignments_def Let_def
      split: sum.splits prod.splits)

text \<open>
  C10. The fallback rationale of \<open>select_operator\<close> for an unknown exclusion reason
  is unreachable. When the source has at least one assignment and the loop over them ends
  with no available operator, the list of exclusion reasons has one entry per assignment,
  so it is not empty; entry \<open>i\<close> is the reason of the operator of assignment \<open>i\<close>, who
  is not eligible, and it starts with that operator's name. The rationale returned is the
  "no available operators" text followed by the reasons joined with \<open>''; ''\<close>, never
  the fallback text.
\<close>

theorem fallback_unreachable:
  assumes "source_assignments d sid \<noteq> []"
    and "filter_operators d (source_assignments d sid) [] [] = Inr ([], un)"
  shows "un \<noteq> [] \<and> length un = length (source_assignments d sid)
         \<and> (\<forall>i<length un. \<exists>p. get_operator d (operator_id (source_assignments d sid ! i)) = Some p
                 \<and> \<not> eligible d p \<and> un ! i = exclusion_reason d p
                 \<and> (\<exists>why. un ! i = op_name p @ why))
         \<and> select_operator d sid r = Inr (None, txt_no_available @ join ''; '' un)"
proof -
  let ?asgs = "source_assignments d sid"
  have ex: "operators_exist d ?asgs"
    using assms(2) by (rule filter_operators_Inr_exist)
  from filter_operators_eq [OF ex, of "[]" "[]"] assms(2)
  have av: "concat (map (asg_available d) ?asgs) = []"
    and un: "un = concat (map (asg_reason d) ?asgs)"
    by simp_all
  from asg_split_length [OF ex] av un have len: "length un = length ?asgs"
    by simp
  with assms(1) have ne: "un \<noteq> []" by auto
  from asg_reason_nth [OF ex av] un
  have unmap: "un = map (\<lambda>a. case get_operator d (operator_id a) of
                       Some p \<Rightarrow> exclusion_reason d p | None \<Rightarrow> []) ?asgs"
    and inel: "\<forall>a\<in>set ?asgs. \<exists>p. get_operator d (operator_id a) = Some p \<and> \<not> eligible d p"
    by simp_all
  have each: "\<exists>p. get_operator d (operator_id (?asgs ! i)) = Some p
                 \<and> \<not> eligible d p \<and> un ! i = exclusion_reason d p
                 \<and> (\<exists>why. un ! i = op_name p @ why)" if "i < length un" for i
  proof -
    from that len have i: "i < length ?asgs" by simp
    then have "?asgs ! i \<in> set ?asgs" by simp
    with inel obtain p where p: "get_operator d (operator_id (?asgs ! i)) = Some p"
      "\<not> eligible d p" by blast
    have "un ! i = exclusion_reason d p"
      by (subst unmap) (simp add: i p)
    moreover have "\<exists>why. exclusion_reason d p = op_name p @ why"
      by (simp add: exclusion_reason_def)
    ultimately show ?thesis using p by simp
  qed
  have sel: "select_operator d sid r = Inr (None, txt_no_available @ join ''; '' un)"
    using assms ne by (simp add: select_operator_unfold)
  from ne len each sel show ?thesis by blast
qed

lemma asg_available_props:
  "x \<in> set (concat (map (asg_available d) asgs)) \<Longrightarrow>
     eligible d (av_operator x) \<and> (\<exists>a\<in>set asgs. av_weight x = weight a
        \<and> get_operator d (operator_id a) = Some (av_operator x))"
  by (induction asgs)
     (auto simp: asg_available_def split: option.splits if_splits)

lemma set_weighted_choices: "set (weighted_choices av) \<subseteq> av_operator ` set av"
  by (auto simp: weighted_choices_def)

lemma length_weighted_choices:
  "list_all (\<lambda>x. 0 \<le> av_weight x) av \<Longrightarrow>
   int (length (weighted_choices av)) = sum_list (map av_weight av)"
  by (induction av) (auto simp: weighted_choices_def)

lemma sum_weights_pos:
  "av \<noteq> [] \<Longrightarrow> list_all (\<lambda>x. 1 \<le> av_weight x) av \<Longrightarrow> 1 \<le> sum_list (map av_weight av)"
proof (induction av)
  case Nil
  then show ?case by simp
next
  case (Cons x xs)
  then show ?case by (cases xs) auto
qed


lemma weights_nonneg:
  "list_all (\<lambda>x. 1 \<le> av_weight x) av \<Longrightarrow> list_all (\<lambda>x. 0 \<le> av_weight x) av"
  by (induction av) auto

lemma random_choice_mem:
  "xs \<noteq> [] \<Longrightarrow> \<exists>x\<in>set xs. random_choice xs r = Inr x"
  by (simp add: random_choice_def)

lemma example_assignments_1:
  "source_assignments example_db 1 =
     [\<lparr>asg_id = 1, operator_id = 1, source_id = 1, weight = 10\<rparr>,
      \<lparr>asg_id = 2, operator_id = 2, source_id = 1, weight = 30\<rparr>]"
  by (simp add: source_assignments_def example_db_def)

lemma example_assignments_2:
  "source_assignments example_db 2 =
     [\<lparr>asg_id = 3, operator_id = 2, source_id = 2, weight = 5\<rparr>]"
  by (simp add: source_assignments_def example_db_def)

lemma example_get_operator:
  "get_operator example_db 1 = Some op_ann" "get_operator example_db 2 = Some op_bob"
  by (simp_all add: get_operator_def example_db_def op_ann_def op_bob_def)

lemma example_exist_1: "operators_exist example_db (source_assignments example_db 1)"
  by (simp add: example_assignments_1 operators_exist_def example_get_operator)

lemma example_positive_1: "positive_weights (source_assignments example_db 1)"
  by (simp add: example_assignments_1 positive_weights_def)

lemma example_load: "get_active_contacts_count example_db k = 0"
  by (simp add: get_active_contacts_count_def example_db_def example_contact_closed_def
      example_contact_open_def is_active_status_def)

lemma example_eligible: "eligible example_db op_ann" "\<not> eligible example_db op_bob"
  by (simp_all add: eligible_def example_load) (simp_all add: op_ann_def op_bob_def)

lemma example_available_1:
  "concat (map (asg_available example_db) (source_assignments example_db 1))
     = [\<lparr>av_operator = op_ann, av_weight = 10, av_current_load = 0\<rparr>]"
  by (simp add: example_assignments_1 asg_available_def example_get_operator
      example_eligible example_load)

lemma example_loop_2:
  "filter_operators example_db (source_assignments example_db 2) [] []
     = Inr ([], [''Bob'' @ txt_inactive])"
  by (simp add: example_assignments_2 example_get_operator) (simp add: op_bob_def)

theorem fallback_unreachable_witness:
  "source_assignments example_db 2 \<noteq> []
   \<and> filter_operators example_db (source_assignments example_db 2) [] []
       = Inr ([], [''Bob'' @ txt_inactive])
   \<and> select_operator example_db 2 0
       = Inr (None, txt_no_available @ join ''; '' [''Bob'' @ txt_inactive])"
proof -
  have ne: "source_assignments example_db 2 \<noteq> []"
    by (simp add: example_assignments_2)
  from fallback_unreachable [OF ne example_loop_2, of 0]
  show ?thesis using ne example_loop_2 by blast
qed

section \<open>Properties of the weighted selection\<close>

lemma mult_div_le_int: "0 < (T::int) \<Longrightarrow> T * (a div T) \<le> a"
proof -
  assume T: "0 < T"
  have "T * (a div T) = a - a mod T"
    by (simp add: minus_mod_eq_mult_div)
  moreover from T have "0 \<le> a mod T"
    by (rule pos_mod_sign)
  ultimately show ?thesis by simp
qed

lemma percentages_scaled:
  "0 < (T::int) \<Longrightarrow>
   T * sum_list (map (\<lambda>x. av_weight x * 100 div T) av) \<le> 100 * sum_list (map av_weight av)"
proof (induction av)
  case Nil
  then show ?case by simp
next
  case (Cons x xs)
  from mult_div_le_int [OF Cons.prems, of "av_weight x * 100"] Cons.IH [OF Cons.prems]
  show ?case by (simp add: distrib_left)
qed

lemma percentages_le_100:
  assumes "0 < sum_list (map av_weight av)"
  shows "sum_list (map (\<lambda>x. av_weight x * 100 div sum_list (map av_weight av)) av) \<le> 100"
proof -
  let ?T = "sum_list (map av_weight av)"
  from percentages_scaled [OF assms]
  have "?T * sum_list (map (\<lambda>x. av_weight x * 100 div ?T) av) \<le> ?T * 100"
    by (simp add: mult.commute)
  with assms show ?thesis by simp
qed

text \<open>
  C8. The percentages of the selection rationale. When \<open>select_operator\<close> returns an
  operator, in a database where the weights of the source's assignments are at least 1,
  the rationale lists every eligible operator with its weight and the percentage
  \<open>weight * 100 div total_weight\<close> (\<open>div\<close> on \<open>int\<close> rounds down, as Python's
  \<open>//\<close>), and these percentages add up to at most 100.
\<close>

theorem rationale_percentages:
  assumes pw: "positive_weights (source_assignments d sid)"
    and sel: "select_operator d sid r = Inr (Some p, info)"
  shows "info = txt_selected @ op_name p @ txt_from
                 @ join '', ''
                     (map (\<lambda>x. op_name (av_operator x) @ txt_weight @ str_int (av_weight x)
                                @ '' (''
                                @ str_int (av_weight x * 100 div
                                     sum_list (map av_weight
                                       (concat (map (asg_available d)
                                                    (source_assignments d sid)))))
                                @ ''%)'')
                          (concat (map (asg_available d) (source_assignments d sid))))
                 @ '']''
       \<and> sum_list (map (\<lambda>x. av_weight x * 100 div
                              sum_list (map av_weight
                                (concat (map (asg_available d) (source_assignments d sid)))))
                      (concat (map (asg_available d) (source_assignments d sid)))) \<le> 100"
proof -
  let ?asgs = "source_assignments d sid"
  let ?av = "concat (map (asg_available d) ?asgs)"
  let ?T = "sum_list (map av_weight ?av)"
  from sel obtain res where "filter_operators d ?asgs [] [] = Inr res"
    by (auto simp: select_operator_unfold split: if_splits sum.splits)
  then have ex: "operators_exist d ?asgs"
    by (rule filter_operators_Inr_exist)
  have loop: "filter_operators d ?asgs [] [] = Inr (?av, concat (map (asg_reason d) ?asgs))"
    using filter_operators_eq [OF ex, of "[]" "[]"] by simp
  from sel loop have ne: "?av \<noteq> []"
    by (auto simp: select_operator_unfold split: if_splits)
  from sel loop have info: "info = txt_selected @ op_name p @ txt_from
                                    @ distribution_desc ?av ?T @ '']''"
    by (auto simp: select_operator_unfold split: if_splits sum.splits)
  have wpos: "list_all (\<lambda>x. 1 \<le> av_weight x) ?av"
    using pw asg_available_props [of _ d ?asgs]
    by (fastforce simp: list_all_iff positive_weights_def)
  from sum_weights_pos [OF ne wpos] have "0 < ?T" by simp
  from percentages_le_100 [OF this] info show ?thesis
    by (simp add: distribution_desc_def)
qed

lemma example_select_1:
  "select_operator example_db 1 4 =
         Inr (Some op_ann,
              txt_selected @ op_name op_ann @ txt_from
                @ distribution_desc
                    [\<lparr>av_operator = op_ann, av_weight = 10, av_current_load = 0\<rparr>] 10
                @ '']'')"
proof -
  have loop: "filter_operators example_db (source_assignments example_db 1) [] []
      = Inr ([\<lparr>av_operator = op_ann, av_weight = 10, av_current_load = 0\<rparr>],
             [op_name op_bob @ txt_inactive])"
    using filter_operators_eq [OF example_exist_1, of "[]" "[]"]
    by (simp add: example_available_1)
       (simp add: example_assignments_1 asg_reason_def example_get_operator example_eligible
          exclusion_reason_def, simp add: op_bob_def)
  have ne: "source_assignments example_db 1 \<noteq> []"
    by (simp add: example_assignments_1)
  show ?thesis
    by (simp add: select_operator_unfold loop ne random_choice_def weighted_choices_def)
qed

lemma weighted_choices_Cons:
  "weighted_choices (x # xs)
     = replicate (nat (av_weight x)) (av_operator x) @ weighted_choices xs"
  by (simp add: weighted_choices_def)

lemma weighted_draw_nth:
  "u < length (weighted_choices av) \<Longrightarrow> weighted_draw av u = Some (weighted_choices av ! u)"
proof (induction av arbitrary: u)
  case Nil
  then show ?case by (simp add: weighted_choices_def)
next
  case (Cons x xs)
  show ?case
  proof (cases "u < nat (av_weight x)")
    case True
    then show ?thesis by (simp add: weighted_choices_Cons nth_append)
  next
    case False
    with Cons.prems have "u - nat (av_weight x) < length (weighted_choices xs)"
      by (simp add: weighted_choices_Cons)
    from Cons.IH [OF this] False show ?thesis
      by (simp add: weighted_choices_Cons nth_append)
  qed
qed

lemma count_replicate: "count_list (replicate n x) y = (if x = y then n else 0)"
  by (induction n) auto

lemma count_list_append: "count_list (xs @ ys) y = count_list xs y + count_list ys y"
  by (induction xs) auto

lemma count_weighted_choices:
  "count_list (weighted_choices av) p
     = sum_list (map (\<lambda>x. if av_operator x = p then nat (av_weight x) else 0) av)"
  by (induction av) (simp_all add: weighted_choices_Cons count_list_append count_replicate
      del: count_list.simps, simp add: weighted_choices_def)

lemma sum_distinct_single:
  "distinct (map f xs) \<Longrightarrow> x \<in> set xs \<Longrightarrow>
   sum_list (map (\<lambda>y. if f y = f x then g y else 0) xs) = (g x :: nat)"
proof (induction xs)
  case Nil
  then show ?case by simp
next
  case (Cons y ys)
  show ?case
  proof (cases "y = x")
    case True
    with Cons.prems have "f x \<notin> f ` set ys" by simp
    then have "sum_list (map (\<lambda>y. if f y = f x then g y else 0) ys) = 0"
      by (induction ys) auto
    with True show ?thesis by simp
  next
    case False
    with Cons.prems have "x \<in> set ys" "f y \<noteq> f x" "distinct (map f ys)" by force+
    with Cons.IH show ?thesis by simp
  qed
qed

lemma card_index_count:
  "card {u. u < length xs \<and> xs ! u = p} = count_list xs p"
proof -
  have "{u. u < length xs \<and> xs ! u = p} = {i. i < length xs \<and> p = xs ! i}"
    by auto
  then show ?thesis
    by (simp add: count_list_eq_length_filter length_filter_conv_card)
qed

text \<open>
  C2. The selection of the source is the specified weighted draw. For a non-empty list
  of eligible operators, pairwise different, with weights of at least 1: the list
  \<open>weighted_choices\<close> has \<open>\<Sum> weight\<close> elements; for every draw \<open>u\<close> below that total,
  \<open>random.choice\<close> on it returns the operator the cumulative-weight draw of the
  specification returns; and the number of draws \<open>u\<close> below the total that select an
  operator is that operator's weight. So under a uniform draw the probability of an
  operator is \<open>weight / \<Sum> weight\<close>, and operators of equal weight are equally likely.
\<close>

theorem weighted_choice_refines_draw:
  assumes ne: "av \<noteq> []"
    and wpos: "list_all (\<lambda>x. 1 \<le> av_weight x) av"
    and dist: "distinct (map av_operator av)"
  shows "length (weighted_choices av) = nat (sum_list (map av_weight av))
       \<and> 0 < sum_list (map av_weight av)
       \<and> (\<forall>u < nat (sum_list (map av_weight av)).
             \<exists>p. random_choice (weighted_choices av) u = Inr p \<and> weighted_draw av u = Some p)
       \<and> (\<forall>x \<in> set av.
             card {u. u < nat (sum_list (map av_weight av))
                      \<and> random_choice (weighted_choices av) u = Inr (av_operator x)}
               = nat (av_weight x))"
proof -
  let ?wc = "weighted_choices av"
  let ?T = "sum_list (map av_weight av)"
  have "int (length ?wc) = ?T"
    using wpos by (intro length_weighted_choices weights_nonneg)
  then have len: "length ?wc = nat ?T" by simp
  from sum_weights_pos [OF ne wpos] have pos: "0 < ?T" by simp
  have rc: "random_choice ?wc u = Inr (?wc ! u)" if "u < nat ?T" for u
    using that len by (auto simp: random_choice_def)
  have draw: "\<forall>u < nat ?T. \<exists>p. random_choice ?wc u = Inr p \<and> weighted_draw av u = Some p"
    using rc weighted_draw_nth [of _ av] len by simp
  have cnt: "card {u. u < nat ?T \<and> random_choice ?wc u = Inr (av_operator x)}
               = nat (av_weight x)" if x: "x \<in> set av" for x
  proof -
    have "{u. u < nat ?T \<and> random_choice ?wc u = Inr (av_operator x)}
            = {u. u < length ?wc \<and> ?wc ! u = av_operator x}"
      using rc len by auto
    then have "card {u. u < nat ?T \<and> random_choice ?wc u = Inr (av_operator x)}
                 = count_list ?wc (av_operator x)"
      by (simp add: card_index_count)
    also have "\<dots> = sum_list (map (\<lambda>y. if av_operator y = av_operator x
                                          then nat (av_weight y) else 0) av)"
      by (rule count_weighted_choices)
    also have "\<dots> = nat (av_weight x)"
      using dist x by (rule sum_distinct_single)
    finally show ?thesis .
  qed
  from len pos draw cnt show ?thesis by blast
qed

theorem weighted_choice_refines_draw_witness:
  "example_available \<noteq> []
   \<and> list_all (\<lambda>x. 1 \<le> av_weight x) example_available
   \<and> distinct (map av_operator example_available)
   \<and> length (weighted_choices example_available) = 40
   \<and> card {u. u < nat (sum_list (map av_weight example_available))
              \<and> random_choice (weighted_choices example_available) u = Inr op_ann} = 10
   \<and> card {u. u < nat (sum_list (map av_weight example_available))
              \<and> random_choice (weighted_choices example_available) u = Inr op_eve} = 30"
proof -
  have h1: "example_available \<noteq> []"
    by (simp add: example_available_def)
  have h2: "list_all (\<lambda>x. 1 \<le> av_weight x) example_available"
    by (simp add: example_available_def)
  have h3: "distinct (map av_operator example_available)"
    by (simp add: example_available_def op_ann_def op_eve_def)
  note inst = weighted_choice_refines_draw [OF h1 h2 h3]
  have len: "length (weighted_choices example_available) = 40"
    using inst by (simp add: example_available_def)
  have mem: "\<lparr>av_operator = op_ann, av_weight = 10, av_current_load = 0\<rparr>
               \<in> set example_available"
    "\<lparr>av_operator = op_eve, av_weight = 30, av_current_load = 0\<rparr> \<in> set example_available"
    by (simp_all add: example_available_def)
  from inst mem(1) have c1:
    "card {u. u < nat (sum_list (map av_weight example_available))
              \<and> random_choice (weighted_choices example_available) u = Inr op_ann} = 10"
    by fastforce
  from inst mem(2) have c2:
    "card {u. u < nat (sum_list (map av_weight example_available))
              \<and> random_choice (weighted_choices example_available) u = Inr op_eve} = 30"
    by fastforce
  from h1 h2 h3 len c1 c2 show ?thesis by blast
qed

section \<open>Properties of ContactService\<close>

lemma select_operator_returns:
  assumes ex: "operators_exist d (source_assignments d sid)"
    and pw: "positive_weights (source_assignments d sid)"
  shows "(concat (map (asg_available d) (source_assignments d sid)) = []
            \<and> (\<exists>info. select_operator d sid r = Inr (None, info)))
       \<or> (\<exists>x\<in>set (concat (map (asg_available d) (source_assignments d sid))). \<exists>info.
             select_operator d sid r = Inr (Some (av_operator x), info))"
proof -
  let ?asgs = "source_assignments d sid"
  let ?av = "concat (map (asg_available d) ?asgs)"
  let ?un = "concat (map (asg_reason d) ?asgs)"
  have loop: "filter_operators d ?asgs [] [] = Inr (?av, ?un)"
    using filter_operators_eq [OF ex, of "[]" "[]"] by simp
  show ?thesis
  proof (cases "?av = []")
    case True
    with loop have "\<exists>info. select_operator d sid r = Inr (None, info)"
      by (simp add: select_operator_unfold)
    with True show ?thesis by blast
  next
    case ne: False
    then have asg_ne: "?asgs \<noteq> []" by auto
    have wpos: "list_all (\<lambda>x. 1 \<le> av_weight x) ?av"
      using pw asg_available_props [of _ d ?asgs]
      by (fastforce simp: list_all_iff positive_weights_def)
    from sum_weights_pos [OF ne wpos] have tot: "1 \<le> sum_list (map av_weight ?av)" .
    have "list_all (\<lambda>x. 0 \<le> av_weight x) ?av"
      using wpos by (rule weights_nonneg)
    from length_weighted_choices [OF this] tot have "weighted_choices ?av \<noteq> []"
      by auto
    from random_choice_mem [OF this, of r] obtain p where
      p: "p \<in> set (weighted_choices ?av)" "random_choice (weighted_choices ?av) r = Inr p"
      by blast
    from p(1) set_weighted_choices obtain x where x: "x \<in> set ?av" "p = av_operator x"
      by blast
    have "\<exists>info. select_operator d sid r = Inr (Some p, info)"
      using asg_ne ne loop p(2) tot by (simp add: select_operator_unfold)
    with x show ?thesis by blast
  qed
qed

lemma filter_operators_cong:
  assumes "operators d1 = operators d" "contacts d1 = contacts d"
  shows "filter_operators d1 asgs av un = filter_operators d asgs av un"
proof -
  have g: "get_operator d1 = get_operator d"
    by (simp add: fun_eq_iff get_operator_def assms)
  have l: "get_active_contacts_count d1 = get_active_contacts_count d"
    by (simp add: fun_eq_iff get_active_contacts_count_def assms)
  show ?thesis
    by (induction asgs arbitrary: av un) (simp_all add: g l Let_def split: option.splits)
qed

lemma select_operator_cong:
  "assignments d1 = assignments d \<Longrightarrow> operators d1 = operators d \<Longrightarrow>
   contacts d1 = contacts d \<Longrightarrow> select_operator d1 sid r = select_operator d sid r"
  using filter_operators_cong [of d1 d]
  by (simp add: select_operator_unfold source_assignments_def)

lemma get_or_create_tables:
  "operators (fst (get_or_create d ext nm ph em)) = operators d"
  "sources (fst (get_or_create d ext nm ph em)) = sources d"
  "assignments (fst (get_or_create d ext nm ph em)) = assignments d"
  "contacts (fst (get_or_create d ext nm ph em)) = contacts d"
  by (simp_all add: get_or_create_def Let_def split: option.splits prod.splits)

lemma find_map_update:
  assumes "find (\<lambda>c. key c = k) xs = Some c0" "\<And>c. key (f c) = key c"
  shows "find (\<lambda>c. key c = k) (map (\<lambda>c. if key c = k then f c else c) xs) = Some (f c0)"
  using assms by (induction xs) (auto split: if_splits)

lemma find_key: "find (\<lambda>c. key c = k) xs = Some c0 \<Longrightarrow> key c0 = k"
  by (induction xs) (auto split: if_splits)

text \<open>
  C6, as the code has it. \<open>update_status\<close> checks no transition: for a contact id that
  is not found it returns nothing and leaves the database as it is; for every existing
  contact, whatever its current status (closed included), it stores the requested status,
  and a request for closed stores the closing time as well. Every transition among new,
  in_progress and closed is therefore taken, closed to new and closed to in_progress
  among them.
\<close>

theorem update_status_any_transition:
  "(get_by_id d cid = None \<longrightarrow> update_status d now cid s = (d, None))
   \<and> (\<forall>c0. get_by_id d cid = Some c0 \<longrightarrow>
          snd (update_status d now cid s)
            = Some (c0\<lparr>status := s,
                       closed_at := (if s = ''closed'' then Some now else closed_at c0)\<rparr>)
          \<and> get_by_id (fst (update_status d now cid s)) cid
            = Some (c0\<lparr>status := s,
                       closed_at := (if s = ''closed'' then Some now else closed_at c0)\<rparr>))"
proof (intro conjI allI impI)
  assume "get_by_id d cid = None"
  then show "update_status d now cid s = (d, None)"
    by (simp add: update_status_def get_by_id_def)
next
  fix c0 assume c0: "get_by_id d cid = Some c0"
  then show "snd (update_status d now cid s)
            = Some (c0\<lparr>status := s,
                       closed_at := (if s = ''closed'' then Some now else closed_at c0)\<rparr>)"
    by (simp add: update_status_def get_by_id_def Let_def)
next
  fix c0 assume c0: "get_by_id d cid = Some c0"
  then have f: "find (\<lambda>c. contact_id c = cid) (contacts d) = Some c0"
    by (simp add: get_by_id_def)
  from find_key [OF f] have k: "contact_id c0 = cid" .
  let ?f = "\<lambda>c. c\<lparr>status := s,
                   closed_at := (if s = ''closed'' then Some now else closed_at c0)\<rparr>"
  have "find (\<lambda>c. contact_id c = cid)
          (map (\<lambda>c. if contact_id c = cid then ?f c else c) (contacts d)) = Some (?f c0)"
    by (rule find_map_update [OF f]) simp
  then show "get_by_id (fst (update_status d now cid s)) cid
            = Some (c0\<lparr>status := s,
                       closed_at := (if s = ''closed'' then Some now else closed_at c0)\<rparr>)"
    using f k
    by (cases "s = ''closed''")
       (simp_all add: update_status_def get_by_id_def Let_def cong: if_cong)
qed

lemma example_closed_get: "get_by_id example_db 1 = Some example_contact_closed"
  by (simp add: get_by_id_def example_db_def example_contact_closed_def)

lemma example_open_get: "get_by_id example_db 2 = Some example_contact_open"
  by (simp add: get_by_id_def example_db_def example_contact_closed_def
      example_contact_open_def)

theorem update_status_any_transition_witness:
  "get_by_id example_db 1 = Some example_contact_closed
   \<and> status example_contact_closed = ''closed''
   \<and> get_by_id (fst (update_status example_db 9 1 ''in_progress'')) 1
       = Some (example_contact_closed\<lparr>status := ''in_progress''\<rparr>)"
proof -
  from update_status_any_transition [of example_db 1 9 "''in_progress''"]
    example_closed_get
  have "get_by_id (fst (update_status example_db 9 1 ''in_progress'')) 1
       = Some (example_contact_closed\<lparr>status := ''in_progress''\<rparr>)"
    by simp
  moreover have "status example_contact_closed = ''closed''"
    by (simp add: example_contact_closed_def)
  ultimately show ?thesis using example_closed_get by blast
qed

text \<open>
  C6 as stated (closed is terminal under \<open>update_status\<close>) fails: the closed contact 1
  of the example database is set back to the active status new.
\<close>

theorem closed_reopened_counterexample:
  "get_by_id example_db 1 = Some example_contact_closed
   \<and> status example_contact_closed = ''closed''
   \<and> snd (update_status example_db 9 1 ''new'')
       = Some (example_contact_closed\<lparr>status := ''new''\<rparr>)
   \<and> get_by_id (fst (update_status example_db 9 1 ''new'')) 1
       = Some (example_contact_closed\<lparr>status := ''new''\<rparr>)
   \<and> is_active_status (status (example_contact_closed\<lparr>status := ''new''\<rparr>))"
  by (simp add: update_status_def get_by_id_def example_db_def
      example_contact_closed_def example_contact_open_def is_active_status_def Let_def)

lemma reassign_selected:
  assumes f: "get_by_id d cid = Some c0" and st: "status c0 \<noteq> ''closed''"
    and sel: "select_operator d (c_source_id c0) r = Inr (opr, info)"
  shows "snd (reassign d now r cid)
           = Inr (Some (c0\<lparr>c_operator_id := map_option op_id opr,
                            assigned_at := (if opr \<noteq> None then Some now else None)\<rparr>), info)
       \<and> get_by_id (fst (reassign d now r cid)) cid
           = Some (c0\<lparr>c_operator_id := map_option op_id opr,
                       assigned_at := (if opr \<noteq> None then Some now else None)\<rparr>)"
proof -
  from f have f': "find (\<lambda>c. contact_id c = cid) (contacts d) = Some c0"
    by (simp add: get_by_id_def)
  from find_key [OF f'] have k: "contact_id c0 = cid" .
  let ?f = "\<lambda>c. c\<lparr>c_operator_id := map_option op_id opr,
                   assigned_at := (if opr \<noteq> None then Some now else None)\<rparr>"
  have "find (\<lambda>c. contact_id c = cid)
          (map (\<lambda>c. if contact_id c = cid then ?f c else c) (contacts d)) = Some (?f c0)"
    by (rule find_map_update [OF f']) simp
  then show ?thesis
    using f' k st sel
    by (cases "opr = None")
       (simp_all add: reassign_def get_by_id_def Let_def cong: if_cong)
qed

text \<open>
  C5. \<open>reassign\<close> returns no contact and the unchanged database when the contact is
  not found ("contact not found") and when its status is closed ("a closed contact cannot
  be reassigned"). For an existing contact that is not closed (the assignments of its
  source referring to existing operators, with weights of at least 1) it runs
  \<open>select_operator\<close> for the contact's own source and stores the outcome: operator id
  and assignment time of the selected operator, or both unset when no operator is
  eligible; the stored row is the contact returned.
\<close>

theorem reassign_behaviour:
  "(get_by_id d cid = None \<longrightarrow>
      reassign d now r cid = (d, Inr (None, msg_contact_not_found)))
   \<and> (\<forall>c0. get_by_id d cid = Some c0 \<and> status c0 = ''closed'' \<longrightarrow>
          reassign d now r cid = (d, Inr (None, msg_closed_contact)))
   \<and> (\<forall>c0. get_by_id d cid = Some c0 \<and> status c0 \<noteq> ''closed''
            \<and> operators_exist d (source_assignments d (c_source_id c0))
            \<and> positive_weights (source_assignments d (c_source_id c0)) \<longrightarrow>
          (\<exists>opr info.
              select_operator d (c_source_id c0) r = Inr (opr, info)
              \<and> (opr = None \<longleftrightarrow>
                   concat (map (asg_available d) (source_assignments d (c_source_id c0))) = [])
              \<and> snd (reassign d now r cid)
                  = Inr (Some (c0\<lparr>c_operator_id := map_option op_id opr,
                                   assigned_at := (if opr \<noteq> None then Some now else None)\<rparr>),
                         info)
              \<and> get_by_id (fst (reassign d now r cid)) cid
                  = Some (c0\<lparr>c_operator_id := map_option op_id opr,
                              assigned_at := (if opr \<noteq> None then Some now else None)\<rparr>)))"
proof (intro conjI allI impI)
  assume "get_by_id d cid = None"
  then show "reassign d now r cid = (d, Inr (None, msg_contact_not_found))"
    by (simp add: reassign_def get_by_id_def)
next
  fix c0 assume "get_by_id d cid = Some c0 \<and> status c0 = ''closed''"
  then show "reassign d now r cid = (d, Inr (None, msg_closed_contact))"
    by (simp add: reassign_def get_by_id_def)
next
  fix c0
  assume h: "get_by_id d cid = Some c0 \<and> status c0 \<noteq> ''closed''
            \<and> operators_exist d (source_assignments d (c_source_id c0))
            \<and> positive_weights (source_assignments d (c_source_id c0))"
  let ?av = "concat (map (asg_available d) (source_assignments d (c_source_id c0)))"
  from h select_operator_returns [of d "c_source_id c0" r]
  obtain opr info where sel: "select_operator d (c_source_id c0) r = Inr (opr, info)"
    and none: "opr = None \<longleftrightarrow> ?av = []"
    by fastforce
  from h reassign_selected [OF _ _ sel, of cid now] none sel
  show "\<exists>opr info.
              select_operator d (c_source_id c0) r = Inr (opr, info)
              \<and> (opr = None \<longleftrightarrow> ?av = [])
              \<and> snd (reassign d now r cid)
                  = Inr (Some (c0\<lparr>c_operator_id := map_option op_id opr,
                                   assigned_at := (if opr \<noteq> None then Some now else None)\<rparr>),
                         info)
              \<and> get_by_id (fst (reassign d now r cid)) cid
                  = Some (c0\<lparr>c_operator_id := map_option op_id opr,
                              assigned_at := (if opr \<noteq> None then Some now else None)\<rparr>)"
    by blast
qed

theorem reassign_behaviour_witness:
  "get_by_id example_db 2 = Some example_contact_open
   \<and> status example_contact_open \<noteq> ''closed''
   \<and> operators_exist example_db (source_assignments example_db (c_source_id example_contact_open))
   \<and> positive_weights (source_assignments example_db (c_source_id example_contact_open))
   \<and> get_by_id (fst (reassign example_db 9 4 2)) 2
       = Some (example_contact_open\<lparr>c_operator_id := Some 1, assigned_at := Some 9\<rparr>)
   \<and> reassign example_db 9 4 1 = (example_db, Inr (None, msg_closed_contact))
   \<and> reassign example_db 9 4 3 = (example_db, Inr (None, msg_contact_not_found))"
proof -
  have src: "c_source_id example_contact_open = 1"
    by (simp add: example_contact_open_def)
  have st: "status example_contact_open \<noteq> ''closed''"
    by (simp add: example_contact_open_def)
  have stc: "status example_contact_closed = ''closed''"
    by (simp add: example_contact_closed_def)
  have nf: "get_by_id example_db 3 = None"
    by (simp add: get_by_id_def example_db_def example_contact_closed_def
        example_contact_open_def)
  note inst = reassign_behaviour [of example_db _ 9 4]
  from inst [of 2] example_open_get st example_exist_1 example_positive_1 example_select_1
  have a: "get_by_id (fst (reassign example_db 9 4 2)) 2
       = Some (example_contact_open\<lparr>c_operator_id := Some 1, assigned_at := Some 9\<rparr>)"
    by (simp add: src op_ann_def)
  from inst [of 1] example_closed_get stc
  have b: "reassign example_db 9 4 1 = (example_db, Inr (None, msg_closed_contact))"
    by simp
  from inst [of 3] nf
  have c: "reassign example_db 9 4 3 = (example_db, Inr (None, msg_contact_not_found))"
    by simp
  from example_open_get st example_exist_1 example_positive_1 a b c show ?thesis
    by (simp add: src)
qed

lemma create_selected:
  assumes src: "get_by_code d (source_code data) = Some src"
    and act: "src_is_active src = Some True"
    and sel: "select_operator d (src_id src) r = Inr (opr, sel_info)"
  shows "\<exists>c info. snd (create d now r data) = Inr (c, info)
           \<and> status c = ''new''
           \<and> c_source_id c = src_id src
           \<and> c_operator_id c = map_option op_id opr
           \<and> assigned_at c = (if opr \<noteq> None then Some now else None)
           \<and> closed_at c = None
           \<and> contacts (fst (create d now r data)) = contacts d @ [c]"
proof -
  let ?g = "get_or_create d (lead_external_id data) (lead_name data) (lead_phone data)
              (lead_email data)"
  obtain d1 lead0 is_new where g: "?g = (d1, lead0, is_new)"
    by (cases ?g) auto
  from get_or_create_tables [of d "lead_external_id data" "lead_name data" "lead_phone data"
      "lead_email data"] g
  have tabs: "operators d1 = operators d" "assignments d1 = assignments d"
    "contacts d1 = contacts d"
    by simp_all
  have "select_operator d1 (src_id src) r = select_operator d (src_id src) r"
    using tabs by (intro select_operator_cong) simp_all
  with sel have sel1: "select_operator d1 (src_id src) r = Inr (opr, sel_info)"
    by simp
  show ?thesis
    using src act g sel1 tabs
    by (simp add: create_def Let_def)
qed

text \<open>
  C7. \<open>create\<close> raises ValueError, with the database unchanged, when no source has
  the code and when the source is not active. For an existing active source (its
  assignments referring to existing operators, with weights of at least 1) it always
  persists a contact with status new at the end of the contacts table: with the operator
  and the assignment time set when \<open>select_operator\<close> selected one, and with both unset
  when no operator is eligible. The lack of an eligible operator is never an error.
\<close>

theorem create_never_fails_for_operator:
  "(get_by_code d (source_code data) = None \<longrightarrow>
      create d now r data
        = (d, Inl (ValueError (txt_source_with_code @ source_code data @ txt_not_found))))
   \<and> (\<forall>src. get_by_code d (source_code data) = Some src \<and> src_is_active src \<noteq> Some True \<longrightarrow>
          create d now r data
            = (d, Inl (ValueError (txt_source @ source_code data @ txt_is_inactive))))
   \<and> (\<forall>src. get_by_code d (source_code data) = Some src \<and> src_is_active src = Some True
            \<and> operators_exist d (source_assignments d (src_id src))
            \<and> positive_weights (source_assignments d (src_id src)) \<longrightarrow>
          (\<exists>c info opr sel_info.
              snd (create d now r data) = Inr (c, info)
              \<and> select_operator d (src_id src) r = Inr (opr, sel_info)
              \<and> (opr = None \<longleftrightarrow>
                   concat (map (asg_available d) (source_assignments d (src_id src))) = [])
              \<and> status c = ''new''
              \<and> c_source_id c = src_id src
              \<and> c_operator_id c = map_option op_id opr
              \<and> assigned_at c = (if opr \<noteq> None then Some now else None)
              \<and> closed_at c = None
              \<and> contacts (fst (create d now r data)) = contacts d @ [c]))"
proof (intro conjI allI impI)
  assume "get_by_code d (source_code data) = None"
  then show "create d now r data
        = (d, Inl (ValueError (txt_source_with_code @ source_code data @ txt_not_found)))"
    by (simp add: create_def)
next
  fix src
  assume "get_by_code d (source_code data) = Some src \<and> src_is_active src \<noteq> Some True"
  then show "create d now r data
            = (d, Inl (ValueError (txt_source @ source_code data @ txt_is_inactive)))"
    by (simp add: create_def)
next
  fix src
  assume h: "get_by_code d (source_code data) = Some src \<and> src_is_active src = Some True
            \<and> operators_exist d (source_assignments d (src_id src))
            \<and> positive_weights (source_assignments d (src_id src))"
  let ?av = "concat (map (asg_available d) (source_assignments d (src_id src)))"
  from h select_operator_returns [of d "src_id src" r]
  obtain opr sel_info where sel: "select_operator d (src_id src) r = Inr (opr, sel_info)"
    and none: "opr = None \<longleftrightarrow> ?av = []"
    by fastforce
  from h create_selected [OF _ _ sel, of data now] obtain c info where
    "snd (create d now r data) = Inr (c, info)" "status c = ''new''"
    "c_source_id c = src_id src" "c_operator_id c = map_option op_id opr"
    "assigned_at c = (if opr \<noteq> None then Some now else None)" "closed_at c = None"
    "contacts (fst (create d now r data)) = contacts d @ [c]"
    by blast
  with sel none show "\<exists>c info opr sel_info.
              snd (create d now r data) = Inr (c, info)
              \<and> select_operator d (src_id src) r = Inr (opr, sel_info)
              \<and> (opr = None \<longleftrightarrow> ?av = [])
              \<and> status c = ''new''
              \<and> c_source_id c = src_id src
              \<and> c_operator_id c = map_option op_id opr
              \<and> assigned_at c = (if opr \<noteq> None then Some now else None)
              \<and> closed_at c = None
              \<and> contacts (fst (create d now r data)) = contacts d @ [c]"
    by blast
qed

lemma example_get_by_code: "get_by_code example_db (source_code example_request) = Some example_source_wa"
  by (simp add: get_by_code_def example_db_def example_request_def example_source_wa_def)

lemma example_exist_2: "operators_exist example_db (source_assignments example_db 2)"
  by (simp add: example_assignments_2 operators_exist_def example_get_operator)

lemma example_positive_2: "positive_weights (source_assignments example_db 2)"
  by (simp add: example_assignments_2 positive_weights_def)

lemma example_available_2:
  "concat (map (asg_available example_db) (source_assignments example_db 2)) = []"
  by (simp add: example_assignments_2 asg_available_def example_get_operator
      example_eligible)

theorem create_never_fails_for_operator_witness:
  "get_by_code example_db (source_code example_request) = Some example_source_wa
   \<and> src_is_active example_source_wa = Some True
   \<and> operators_exist example_db (source_assignments example_db (src_id example_source_wa))
   \<and> positive_weights (source_assignments example_db (src_id example_source_wa))
   \<and> (\<exists>c info. snd (create example_db 9 0 example_request) = Inr (c, info)
          \<and> status c = ''new'' \<and> c_operator_id c = None \<and> assigned_at c = None
          \<and> contacts (fst (create example_db 9 0 example_request))
              = contacts example_db @ [c])"
proof -
  have sid: "src_id example_source_wa = 2" and act: "src_is_active example_source_wa = Some True"
    by (simp_all add: example_source_wa_def)
  from create_never_fails_for_operator [of example_db example_request 9 0]
    example_get_by_code act example_exist_2 example_positive_2 example_available_2
  have "\<exists>c info. snd (create example_db 9 0 example_request) = Inr (c, info)
          \<and> status c = ''new'' \<and> c_operator_id c = None \<and> assigned_at c = None
          \<and> contacts (fst (create example_db 9 0 example_request))
              = contacts example_db @ [c]"
    by (simp add: sid) fastforce
  with example_get_by_code act example_exist_2 example_positive_2 show ?thesis
    by (simp add: sid)
qed

section \<open>Properties of LeadService\<close>

lemma find_map_preserve:
  "find P xs = Some x \<Longrightarrow> (\<And>y. P (g y) = P y) \<Longrightarrow> find P (map g xs) = Some (g x)"
  by (induction xs) (auto split: if_splits)

lemma if_update_name: "(if c then l\<lparr>name := v\<rparr> else l) = l\<lparr>name := (if c then v else name l)\<rparr>"
  by simp

lemma if_update_phone: "(if c then l\<lparr>phone := v\<rparr> else l) = l\<lparr>phone := (if c then v else phone l)\<rparr>"
  by simp

lemma if_update_email: "(if c then l\<lparr>email := v\<rparr> else l) = l\<lparr>email := (if c then v else email l)\<rparr>"
  by simp

lemma get_or_create_found:
  assumes f: "find (\<lambda>l. external_id l = ext) (leads d) = Some l0"
  shows "get_or_create d ext nm ph em
      = (if (truthy nm \<and> \<not> truthy (name l0)) \<or> (truthy ph \<and> \<not> truthy (phone l0))
              \<or> (truthy em \<and> \<not> truthy (email l0))
         then (d\<lparr>leads := map (\<lambda>l. if lead_id l = lead_id l0
                then l\<lparr>name := fill nm (name l0), phone := fill ph (phone l0),
                       email := fill em (email l0)\<rparr> else l) (leads d)\<rparr>,
               l0\<lparr>name := fill nm (name l0), phone := fill ph (phone l0),
                   email := fill em (email l0)\<rparr>, False)
         else (d, l0\<lparr>name := fill nm (name l0), phone := fill ph (phone l0),
                   email := fill em (email l0)\<rparr>, False))"
  by (simp add: get_or_create_def f fill_def Let_def if_update_name if_update_phone
      if_update_email split del: if_split cong: if_cong)

lemma get_or_create_existing:
  assumes f: "find (\<lambda>l. external_id l = ext) (leads d) = Some l0"
  shows "snd (get_or_create d ext nm ph em)
           = (l0\<lparr>name := fill nm (name l0), phone := fill ph (phone l0),
                  email := fill em (email l0)\<rparr>, False)
       \<and> length (leads (fst (get_or_create d ext nm ph em))) = length (leads d)
       \<and> find (\<lambda>l. external_id l = ext) (leads (fst (get_or_create d ext nm ph em)))
           = Some (l0\<lparr>name := fill nm (name l0), phone := fill ph (phone l0),
                       email := fill em (email l0)\<rparr>)"
proof -
  let ?l3 = "l0\<lparr>name := fill nm (name l0), phone := fill ph (phone l0),
                  email := fill em (email l0)\<rparr>"
  let ?g = "\<lambda>l. if lead_id l = lead_id l0
                then l\<lparr>name := fill nm (name l0), phone := fill ph (phone l0),
                       email := fill em (email l0)\<rparr> else l"
  let ?upd = "(truthy nm \<and> \<not> truthy (name l0)) \<or> (truthy ph \<and> \<not> truthy (phone l0))
                 \<or> (truthy em \<and> \<not> truthy (email l0))"
  have m: "find (\<lambda>l. external_id l = ext) (map ?g (leads d)) = Some (?g l0)"
    by (rule find_map_preserve [OF f]) simp
  have g0: "?g l0 = ?l3" by simp
  show ?thesis
  proof (cases ?upd)
    case True
    with get_or_create_found [OF f, of nm ph em]
    have "get_or_create d ext nm ph em = (d\<lparr>leads := map ?g (leads d)\<rparr>, ?l3, False)"
      by simp
    with m g0 show ?thesis by simp
  next
    case False
    with get_or_create_found [OF f, of nm ph em]
    have "get_or_create d ext nm ph em = (d, ?l3, False)"
      by simp
    moreover from False have "?l3 = l0" by (auto simp: fill_def)
    ultimately show ?thesis using f by simp
  qed
qed

lemma find_append_new:
  "find P xs = None \<Longrightarrow> P x \<Longrightarrow> find P (xs @ [x]) = Some x"
  by (induction xs) (auto split: if_splits)

lemma get_or_create_new:
  assumes f: "find (\<lambda>l. external_id l = ext) (leads d) = None"
  shows "\<exists>l0. snd (get_or_create d ext nm ph em) = (l0, True)
           \<and> leads (fst (get_or_create d ext nm ph em)) = leads d @ [l0]
           \<and> find (\<lambda>l. external_id l = ext) (leads (fst (get_or_create d ext nm ph em)))
               = Some l0"
  using f find_append_new [OF f]
  by (simp add: get_or_create_def Let_def)

lemma get_or_create_find:
  "find (\<lambda>l. external_id l = ext) (leads (fst (get_or_create d ext nm ph em)))
     = Some (fst (snd (get_or_create d ext nm ph em)))"
proof (cases "find (\<lambda>l. external_id l = ext) (leads d)")
  case None
  from get_or_create_new [OF this, of nm ph em] show ?thesis by auto
next
  case (Some l0)
  from get_or_create_existing [OF this, of nm ph em] show ?thesis by simp
qed

lemma create_lead:
  assumes c: "create d now r data = (d', Inr (c, info))"
  shows "leads d' = leads (fst (get_or_create d (lead_external_id data) (lead_name data)
                                   (lead_phone data) (lead_email data)))
       \<and> c_lead_id c = lead_id (fst (snd (get_or_create d (lead_external_id data)
                                   (lead_name data) (lead_phone data) (lead_email data))))"
proof -
  let ?g = "get_or_create d (lead_external_id data) (lead_name data) (lead_phone data)
              (lead_email data)"
  obtain d1 l0 b where g: "?g = (d1, l0, b)" by (cases ?g) auto
  from c obtain src where src: "get_by_code d (source_code data) = Some src"
    by (cases "get_by_code d (source_code data)") (auto simp: create_def)
  from c src have act: "src_is_active src = Some True"
    by (auto simp: create_def split: if_splits)
  from c src act g obtain opr si where sel: "select_operator d1 (src_id src) r = Inr (opr, si)"
    by (cases "select_operator d1 (src_id src) r") (auto simp: create_def)
  from c src act g sel show ?thesis
    by (auto simp: create_def Let_def)
qed

lemma example_select_2:
  "select_operator example_db 2 r = Inr (None, txt_no_available @ ''Bob'' @ txt_inactive)"
  by (simp add: select_operator_unfold example_loop_2) (simp add: example_assignments_2)

lemma example_create_first:
  "create example_db_fresh 8 0 example_request_first
     = (example_db\<lparr>contacts := contacts example_db @ [example_contact_3]\<rparr>,
        Inr (example_contact_3,
             txt_new_lead @ ''; '' @ txt_no_available @ ''Bob'' @ txt_inactive))"
proof -
  have code: "get_by_code example_db_fresh ''wa'' = Some example_source_wa"
    by (simp add: get_by_code_def example_db_fresh_def example_db_def
        example_source_wa_def)
  have goc: "get_or_create example_db_fresh ''user_1'' (Some []) None (Some ''u1@example.org'')
               = (example_db, \<lparr>lead_id = 1, external_id = ''user_1'', name = Some [],
                               phone = None, email = Some ''u1@example.org''\<rparr>, True)"
    by (simp add: get_or_create_def example_db_fresh_def example_db_def next_id_def Let_def)
  have ids: "next_id (map contact_id (contacts example_db)) = 3"
    by (simp add: next_id_def example_db_def example_contact_closed_def
        example_contact_open_def)
  have act: "src_is_active example_source_wa = Some True" "src_id example_source_wa = 2"
    by (simp_all add: example_source_wa_def)
  show ?thesis
    by (simp add: create_def example_request_first_def code goc act example_select_2 ids
        example_contact_3_def Let_def)
qed

lemma example_create_second:
  "create (example_db\<lparr>contacts := contacts example_db @ [example_contact_3]\<rparr>) 9 0
      example_request
     = (example_db\<lparr>leads := [\<lparr>lead_id = 1, external_id = ''user_1'', name = Some ''Uma'',
                                phone = None, email = Some ''u1@example.org''\<rparr>],
                    contacts := contacts example_db
                       @ [example_contact_3, example_contact_3\<lparr>contact_id := 4\<rparr>]\<rparr>,
        Inr (example_contact_3\<lparr>contact_id := 4\<rparr>,
             txt_existing_lead @ ''; '' @ txt_no_available @ ''Bob'' @ txt_inactive))"
proof -
  let ?d = "example_db\<lparr>contacts := contacts example_db @ [example_contact_3]\<rparr>"
  have code: "get_by_code ?d ''wa'' = Some example_source_wa"
    using example_get_by_code by (simp add: get_by_code_def example_request_def)
  have f: "find (\<lambda>l. external_id l = ''user_1'') (leads ?d)
             = Some \<lparr>lead_id = 1, external_id = ''user_1'', name = Some [], phone = None,
                     email = Some ''u1@example.org''\<rparr>"
    by (simp add: example_db_def)
  have fl: "fill (Some ''Uma'') (Some []) = Some ''Uma''" "fill None None = None"
    "fill (Some ''other@example.org'') (Some ''u1@example.org'') = Some ''u1@example.org''"
    by (simp_all add: fill_def truthy_def)
  have goc: "get_or_create ?d ''user_1'' (Some ''Uma'') None (Some ''other@example.org'')
               = (?d\<lparr>leads := [\<lparr>lead_id = 1, external_id = ''user_1'', name = Some ''Uma'',
                                    phone = None, email = Some ''u1@example.org''\<rparr>]\<rparr>,
                  \<lparr>lead_id = 1, external_id = ''user_1'', name = Some ''Uma'',
                    phone = None, email = Some ''u1@example.org''\<rparr>, False)"
    by (simp add: get_or_create_found [OF f] fl truthy_def) (simp add: example_db_def fl)
  have sel: "select_operator
               (?d\<lparr>leads := [\<lparr>lead_id = 1, external_id = ''user_1'', name = Some ''Uma'',
                                  phone = None, email = Some ''u1@example.org''\<rparr>]\<rparr>) 2 0
               = Inr (None, txt_no_available @ ''Bob'' @ txt_inactive)"
  proof -
    have "select_operator
               (?d\<lparr>leads := [\<lparr>lead_id = 1, external_id = ''user_1'', name = Some ''Uma'',
                                  phone = None, email = Some ''u1@example.org''\<rparr>]\<rparr>) 2 0
            = select_operator ?d 2 0"
      by (rule select_operator_cong) simp_all
    also have "\<dots> = Inr (None, txt_no_available @ ''Bob'' @ txt_inactive)"
      by (simp add: select_operator_unfold source_assignments_def example_db_def
          get_operator_def op_ann_def op_bob_def)
    finally show ?thesis .
  qed
  have ids: "next_id (map contact_id (contacts example_db) @ [3]) = 4"
    by (simp add: next_id_def example_db_def example_contact_closed_def
        example_contact_open_def)
  have act: "src_is_active example_source_wa = Some True" "src_id example_source_wa = 2"
    by (simp_all add: example_source_wa_def)
  show ?thesis
    by (simp add: create_def example_request_def code goc act sel Let_def)
       (simp add: example_contact_3_def ids)
qed

text \<open>
  C4, as the code has it. Two successful \<open>create\<close> calls with the same external id
  resolve to the same lead id, and the second adds no lead. A field of the lead (name,
  phone, email) that holds a non-empty value is never overwritten by the second call; a
  field that is \<open>None\<close> or the empty string is filled with the value the second call
  carries when that value is non-empty, and is left alone otherwise (\<open>fill\<close>).
\<close>

theorem lead_resolution_stable:
  assumes c1: "create d now r data = (d1, Inr (c1, info1))"
    and c2: "create d1 now' r' data' = (d2, Inr (c2, info2))"
    and same: "lead_external_id data' = lead_external_id data"
  shows "c_lead_id c2 = c_lead_id c1
       \<and> length (leads d2) = length (leads d1)
       \<and> (\<exists>l1 l2.
             find (\<lambda>l. external_id l = lead_external_id data) (leads d1) = Some l1
             \<and> find (\<lambda>l. external_id l = lead_external_id data) (leads d2) = Some l2
             \<and> lead_id l1 = c_lead_id c1 \<and> lead_id l2 = c_lead_id c1
             \<and> name l2 = fill (lead_name data') (name l1)
             \<and> phone l2 = fill (lead_phone data') (phone l1)
             \<and> email l2 = fill (lead_email data') (email l1))"
proof -
  let ?ext = "lead_external_id data"
  let ?G1 = "get_or_create d ?ext (lead_name data) (lead_phone data) (lead_email data)"
  let ?G2 = "get_or_create d1 ?ext (lead_name data') (lead_phone data') (lead_email data')"
  let ?l1 = "fst (snd ?G1)"
  let ?l2 = "?l1\<lparr>name := fill (lead_name data') (name ?l1),
                   phone := fill (lead_phone data') (phone ?l1),
                   email := fill (lead_email data') (email ?l1)\<rparr>"
  from create_lead [OF c1] have l1: "leads d1 = leads (fst ?G1)" "c_lead_id c1 = lead_id ?l1"
    by simp_all
  from get_or_create_find [of ?ext d] l1(1)
  have f1: "find (\<lambda>l. external_id l = ?ext) (leads d1) = Some ?l1"
    by simp
  from create_lead [OF c2] same
  have l2: "leads d2 = leads (fst ?G2)" "c_lead_id c2 = lead_id (fst (snd ?G2))"
    by simp_all
  from get_or_create_existing [OF f1, of "lead_name data'" "lead_phone data'" "lead_email data'"]
  have g2: "snd ?G2 = (?l2, False)" "length (leads (fst ?G2)) = length (leads d1)"
    "find (\<lambda>l. external_id l = ?ext) (leads (fst ?G2)) = Some ?l2"
    by simp_all
  from l2 g2 have id2: "c_lead_id c2 = lead_id ?l1" by simp
  from l2 g2 have len: "length (leads d2) = length (leads d1)" by simp
  from l2 g2 have f2: "find (\<lambda>l. external_id l = ?ext) (leads d2) = Some ?l2" by simp
  have fields: "lead_id ?l2 = lead_id ?l1" "name ?l2 = fill (lead_name data') (name ?l1)"
    "phone ?l2 = fill (lead_phone data') (phone ?l1)"
    "email ?l2 = fill (lead_email data') (email ?l1)"
    by simp_all
  from id2 l1(2) have "c_lead_id c2 = c_lead_id c1" by simp
  moreover note len
  moreover have "\<exists>l1 l2.
             find (\<lambda>l. external_id l = ?ext) (leads d1) = Some l1
             \<and> find (\<lambda>l. external_id l = ?ext) (leads d2) = Some l2
             \<and> lead_id l1 = c_lead_id c1 \<and> lead_id l2 = c_lead_id c1
             \<and> name l2 = fill (lead_name data') (name l1)
             \<and> phone l2 = fill (lead_phone data') (phone l1)
             \<and> email l2 = fill (lead_email data') (email l1)"
    using f1 f2 fields l1(2) by (intro exI [of _ ?l1] exI [of _ ?l2]) simp
  ultimately show ?thesis by blast
qed

theorem lead_resolution_stable_witness:
  "create example_db_fresh 8 0 example_request_first
     = (example_db\<lparr>contacts := contacts example_db @ [example_contact_3]\<rparr>,
        Inr (example_contact_3,
             txt_new_lead @ ''; '' @ txt_no_available @ ''Bob'' @ txt_inactive))
   \<and> lead_external_id example_request = lead_external_id example_request_first
   \<and> c_lead_id (example_contact_3\<lparr>contact_id := 4\<rparr>) = c_lead_id example_contact_3
   \<and> length (leads (fst (create
         (example_db\<lparr>contacts := contacts example_db @ [example_contact_3]\<rparr>) 9 0
         example_request))) = length (leads example_db)"
proof -
  have same: "lead_external_id example_request = lead_external_id example_request_first"
    by (simp add: example_request_def example_request_first_def)
  from lead_resolution_stable [OF example_create_first example_create_second same]
  have "c_lead_id (example_contact_3\<lparr>contact_id := 4\<rparr>) = c_lead_id example_contact_3"
    "length (leads (example_db\<lparr>leads := [\<lparr>lead_id = 1, external_id = ''user_1'',
                                name = Some ''Uma'',
                                phone = None, email = Some ''u1@example.org''\<rparr>],
                    contacts := contacts example_db
                       @ [example_contact_3, example_contact_3\<lparr>contact_id := 4\<rparr>]\<rparr>))
       = length (leads (example_db\<lparr>contacts := contacts example_db @ [example_contact_3]\<rparr>))"
    by blast+
  with example_create_first same show ?thesis
    by (simp add: example_create_second)
qed

text \<open>
  C4 as stated (a field already set is never overwritten) fails for a field set to the
  empty string: the first creation stores the name \<open>''''\<close> it carries, and the second
  creation, carrying another name, overwrites it.
\<close>

theorem set_field_overwritten_counterexample:
  "lead_name example_request_first = Some []
   \<and> \<not> isl (snd (create example_db_fresh 8 0 example_request_first))
   \<and> map name (leads (fst (create example_db_fresh 8 0 example_request_first))) = [Some []]
   \<and> lead_name example_request = Some ''Uma''
   \<and> \<not> isl (snd (create (fst (create example_db_fresh 8 0 example_request_first)) 9 0
                    example_request))
   \<and> map name (leads (fst (create (fst (create example_db_fresh 8 0 example_request_first))
                               9 0 example_request))) = [Some ''Uma'']"
  by (simp add: example_create_first example_create_second)
     (simp add: example_request_def example_request_first_def example_db_def)

section \<open>Workload and capacity\<close>

lemma create_unfold:
  assumes src: "get_by_code d (source_code data) = Some src"
    and act: "src_is_active src = Some True"
  shows "create d now r data =
     (let g = get_or_create d (lead_external_id data) (lead_name data) (lead_phone data)
                (lead_email data);
          d1 = fst g
      in case select_operator d (src_id src) r of
           Inl e \<Rightarrow> (d1, Inl e)
         | Inr (opr, distribution_info) \<Rightarrow>
             (d1\<lparr>contacts := contacts d @
                 [\<lparr>contact_id = next_id (map contact_id (contacts d)),
                   c_lead_id = lead_id (fst (snd g)),
                   c_source_id = src_id src,
                   c_operator_id = map_option op_id opr,
                   status = ''new'',
                   message = cc_message data,
                   assigned_at = (if opr \<noteq> None then Some now else None),
                   closed_at = None\<rparr>]\<rparr>,
              Inr (\<lparr>contact_id = next_id (map contact_id (contacts d)),
                    c_lead_id = lead_id (fst (snd g)),
                    c_source_id = src_id src,
                    c_operator_id = map_option op_id opr,
                    status = ''new'',
                    message = cc_message data,
                    assigned_at = (if opr \<noteq> None then Some now else None),
                    closed_at = None\<rparr>,
                   (if snd (snd g) then txt_new_lead else txt_existing_lead) @ ''; ''
                     @ distribution_info)))"
proof -
  let ?g = "get_or_create d (lead_external_id data) (lead_name data) (lead_phone data)
              (lead_email data)"
  obtain d1 l0 b where g: "?g = (d1, l0, b)" by (cases ?g) auto
  from get_or_create_tables [of d "lead_external_id data" "lead_name data" "lead_phone data"
      "lead_email data"] g
  have tabs: "operators d1 = operators d" "assignments d1 = assignments d"
    "contacts d1 = contacts d"
    by simp_all
  have sel: "select_operator d1 (src_id src) r = select_operator d (src_id src) r"
    using tabs by (intro select_operator_cong) simp_all
  show ?thesis
    using src act g sel tabs
    by (simp add: create_def Let_def split: sum.splits prod.splits)
qed

lemma create_tables:
  "operators (fst (create d now r data)) = operators d"
  "sources (fst (create d now r data)) = sources d"
  "assignments (fst (create d now r data)) = assignments d"
proof -
  let ?g = "get_or_create d (lead_external_id data) (lead_name data) (lead_phone data)
              (lead_email data)"
  note gt = get_or_create_tables [of d "lead_external_id data" "lead_name data"
      "lead_phone data" "lead_email data"]
  have "operators (fst (create d now r data)) = operators d
      \<and> sources (fst (create d now r data)) = sources d
      \<and> assignments (fst (create d now r data)) = assignments d"
  proof (cases "get_by_code d (source_code data)")
    case None
    then show ?thesis by (simp add: create_def)
  next
    case (Some src)
    show ?thesis
    proof (cases "src_is_active src = Some True")
      case False
      with Some show ?thesis by (simp add: create_def)
    next
      case True
      show ?thesis
        using gt
        by (simp add: create_unfold [OF Some True] Let_def split: sum.splits prod.splits)
    qed
  qed
  then show "operators (fst (create d now r data)) = operators d"
    "sources (fst (create d now r data)) = sources d"
    "assignments (fst (create d now r data)) = assignments d"
    by simp_all
qed

lemma sole_operator_select:
  assumes so: "sole_operator d c src a p"
  shows "\<exists>info. select_operator d (src_id src) r
           = Inr (if get_active_contacts_count d (op_id p) < max_active_contacts p
                  then Some p else None, info)"
proof -
  let ?asgs = "source_assignments d (src_id src)"
  from so have asgs: "?asgs = [a]" and p: "get_operator d (operator_id a) = Some p"
    and act: "op_is_active p" and w: "1 \<le> weight a"
    by (simp_all add: sole_operator_def)
  have ex: "operators_exist d ?asgs" and pw: "positive_weights ?asgs"
    using asgs p w by (simp_all add: operators_exist_def positive_weights_def)
  have av: "concat (map (asg_available d) ?asgs)
              = (if get_active_contacts_count d (op_id p) < max_active_contacts p
                 then [\<lparr>av_operator = p, av_weight = weight a,
                        av_current_load = get_active_contacts_count d (op_id p)\<rparr>]
                 else [])"
    using asgs p act by (simp add: asg_available_def eligible_def)
  from select_operator_returns [OF ex pw, of r] av show ?thesis
    by (auto split: if_splits)
qed

lemma create_step:
  assumes so: "sole_operator d c src a p" and code: "source_code data = c"
  shows "\<exists>ct info. snd (create d now r data) = Inr (ct, info)
        \<and> c_operator_id ct
            = (if get_active_contacts_count d (op_id p) < max_active_contacts p
               then Some (op_id p) else None)
        \<and> sole_operator (fst (create d now r data)) c src a p
        \<and> get_active_contacts_count (fst (create d now r data)) (op_id p)
            = get_active_contacts_count d (op_id p)
              + (if get_active_contacts_count d (op_id p) < max_active_contacts p
                 then 1 else 0)"
proof -
  let ?d' = "fst (create d now r data)"
  let ?n = "get_active_contacts_count d (op_id p)"
  from so code have src: "get_by_code d (source_code data) = Some src"
    and act: "src_is_active src = Some True"
    by (simp_all add: sole_operator_def)
  from sole_operator_select [OF so, of r] obtain info where
    sel: "select_operator d (src_id src) r
            = Inr (if ?n < max_active_contacts p then Some p else None, info)"
    by blast
  from create_selected [OF src act sel, of now] obtain ct cinfo where
    res: "snd (create d now r data) = Inr (ct, cinfo)" and st: "status ct = ''new''"
    and opid: "c_operator_id ct
                 = map_option op_id (if ?n < max_active_contacts p then Some p else None)"
    and cts: "contacts ?d' = contacts d @ [ct]"
    by blast
  from opid have opid': "c_operator_id ct
      = (if ?n < max_active_contacts p then Some (op_id p) else None)"
    by simp
  have so': "sole_operator ?d' c src a p"
    using so create_tables [of d now r data]
    by (simp add: sole_operator_def get_by_code_def source_assignments_def get_operator_def)
  have "get_active_contacts_count ?d' (op_id p)
          = ?n + (if c_operator_id ct = Some (op_id p) \<and> is_active_status (status ct)
                  then 1 else 0)"
    using cts by (simp add: get_active_contacts_count_def)
  with opid' st have cnt: "get_active_contacts_count ?d' (op_id p)
          = ?n + (if ?n < max_active_contacts p then 1 else 0)"
    by (simp add: is_active_status_def)
  from res opid' so' cnt show ?thesis by blast
qed

lemma create_all_assign:
  assumes "sole_operator d c src a p"
    and "list_all (\<lambda>(now, r, data). source_code data = c) reqs"
    and "k < length reqs"
  shows "\<exists>ct info. snd (create_all d reqs) ! k = Inr (ct, info)
           \<and> c_operator_id ct
               = (if get_active_contacts_count d (op_id p) + int k < max_active_contacts p
                  then Some (op_id p) else None)"
  using assms
proof (induction reqs arbitrary: d k)
  case Nil
  then show ?case by simp
next
  case (Cons q reqs)
  obtain now r data where q: "q = (now, r, data)" by (cases q) auto
  from Cons.prems(2) q have code: "source_code data = c"
    and rest: "list_all (\<lambda>(now, r, data). source_code data = c) reqs"
    by simp_all
  let ?d1 = "fst (create d now r data)"
  let ?n = "get_active_contacts_count d (op_id p)"
  from create_step [OF Cons.prems(1) code, of now r] obtain ct info where
    res: "snd (create d now r data) = Inr (ct, info)"
    and opid: "c_operator_id ct = (if ?n < max_active_contacts p then Some (op_id p) else None)"
    and so1: "sole_operator ?d1 c src a p"
    and cnt: "get_active_contacts_count ?d1 (op_id p)
                = ?n + (if ?n < max_active_contacts p then 1 else 0)"
    by blast
  have unf: "snd (create_all d (q # reqs))
               = snd (create d now r data) # snd (create_all ?d1 reqs)"
    by (simp add: q split: prod.splits)
  show ?case
  proof (cases k)
    case 0
    with unf res opid show ?thesis by simp
  next
    case (Suc k')
    with Cons.prems(3) have k': "k' < length reqs" by simp
    from Cons.IH [OF so1 rest k'] obtain ct' info' where
      r': "snd (create_all ?d1 reqs) ! k' = Inr (ct', info')"
      and o': "c_operator_id ct'
                 = (if get_active_contacts_count ?d1 (op_id p) + int k' < max_active_contacts p
                    then Some (op_id p) else None)"
      by blast
    have "(get_active_contacts_count ?d1 (op_id p) + int k' < max_active_contacts p)
            = (?n + int k < max_active_contacts p)"
      using cnt Suc by auto
    with o' have "c_operator_id ct'
        = (if ?n + int k < max_active_contacts p then Some (op_id p) else None)"
      by simp
    with r' unf Suc show ?thesis by simp
  qed
qed

text \<open>
  C3. In every database \<open>d'\<close> the workload count of an operator is the number of
  contact rows of that operator whose status is new or in_progress. In a single-threaded
  run (\<open>create_all\<close>) where an active operator \<open>p\<close> with no active contact is the only
  operator assigned to an active source, and every request names that source, creation
  number \<open>k\<close> (counted from 0) succeeds and gets the operator exactly when \<open>k\<close> is below
  the operator's capacity: the first \<open>C\<close> contacts are assigned to \<open>p\<close>, and contact
  \<open>C + 1\<close> and all later ones are created with no operator.
\<close>

theorem workload_and_capacity:
  assumes so: "sole_operator d c src a p"
    and idle: "get_active_contacts_count d (op_id p) = 0"
    and reqs: "list_all (\<lambda>(now, r, data). source_code data = c) reqs"
    and k: "k < length reqs"
  shows "get_active_contacts_count d' oid
           = int (card {i. i < length (contacts d')
                          \<and> c_operator_id (contacts d' ! i) = Some oid
                          \<and> (status (contacts d' ! i) = ''new''
                               \<or> status (contacts d' ! i) = ''in_progress'')})
       \<and> (\<exists>ct info. snd (create_all d reqs) ! k = Inr (ct, info)
              \<and> c_operator_id ct
                  = (if int k < max_active_contacts p then Some (op_id p) else None))"
proof -
  have "get_active_contacts_count d' oid
           = int (card {i. i < length (contacts d')
                          \<and> c_operator_id (contacts d' ! i) = Some oid
                          \<and> (status (contacts d' ! i) = ''new''
                               \<or> status (contacts d' ! i) = ''in_progress'')})"
    by (simp add: get_active_contacts_count_def is_active_status_def
        length_filter_conv_card)
  moreover from create_all_assign [OF so reqs k] idle
  have "\<exists>ct info. snd (create_all d reqs) ! k = Inr (ct, info)
              \<and> c_operator_id ct
                  = (if int k < max_active_contacts p then Some (op_id p) else None)"
    by simp
  ultimately show ?thesis by blast
qed

theorem workload_and_capacity_witness:
  "sole_operator example_db_sole ''telegram'' example_source_tg
     \<lparr>asg_id = 1, operator_id = 1, source_id = 1, weight = 10\<rparr> op_ann
   \<and> get_active_contacts_count example_db_sole (op_id op_ann) = 0
   \<and> list_all (\<lambda>(now, r, data). source_code data = ''telegram'') example_requests
   \<and> 2 < length example_requests
   \<and> max_active_contacts op_ann = 2
   \<and> (\<exists>ct info. snd (create_all example_db_sole example_requests) ! 2 = Inr (ct, info)
          \<and> c_operator_id ct = None)"
proof -
  have so: "sole_operator example_db_sole ''telegram'' example_source_tg
     \<lparr>asg_id = 1, operator_id = 1, source_id = 1, weight = 10\<rparr> op_ann"
    by (simp add: sole_operator_def example_db_sole_def example_db_def get_by_code_def
        example_source_tg_def source_assignments_def get_operator_def op_ann_def op_bob_def)
  have idle: "get_active_contacts_count example_db_sole (op_id op_ann) = 0"
    using example_load [of "op_id op_ann"]
    by (simp add: get_active_contacts_count_def example_db_sole_def)
  have reqs: "list_all (\<lambda>(now, r, data). source_code data = ''telegram'') example_requests"
    by (simp add: example_requests_def)
  have k: "2 < length example_requests"
    by (simp add: example_requests_def)
  have cap: "max_active_contacts op_ann = 2"
    by (simp add: op_ann_def)
  from workload_and_capacity [OF so idle reqs k] cap
  have "\<exists>ct info. snd (create_all example_db_sole example_requests) ! 2 = Inr (ct, info)
          \<and> c_operator_id ct = None"
    by simp
  with so idle reqs k cap show ?thesis by blast
qed

section \<open>The branches of select_operator and its rationale\<close>

lemma select_operator_draw:
  assumes ex: "operators_exist d (source_assignments d sid)"
    and pw: "positive_weights (source_assignments d sid)"
    and ne: "concat (map (asg_available d) (source_assignments d sid)) \<noteq> []"
  shows "length (weighted_choices (concat (map (asg_available d) (source_assignments d sid))))
           = nat (sum_list (map av_weight
                    (concat (map (asg_available d) (source_assignments d sid)))))
       \<and> 0 < sum_list (map av_weight
                 (concat (map (asg_available d) (source_assignments d sid))))
       \<and> select_operator d sid r =
           Inr (Some (weighted_choices
                        (concat (map (asg_available d) (source_assignments d sid)))
                      ! (r mod nat (sum_list (map av_weight
                           (concat (map (asg_available d) (source_assignments d sid))))))),
                txt_selected
                  @ op_name (weighted_choices
                        (concat (map (asg_available d) (source_assignments d sid)))
                      ! (r mod nat (sum_list (map av_weight
                           (concat (map (asg_available d) (source_assignments d sid)))))))
                  @ txt_from
                  @ distribution_desc
                      (concat (map (asg_available d) (source_assignments d sid)))
                      (sum_list (map av_weight
                         (concat (map (asg_available d) (source_assignments d sid)))))
                  @ '']'')"
proof -
  let ?asgs = "source_assignments d sid"
  let ?av = "concat (map (asg_available d) ?asgs)"
  let ?un = "concat (map (asg_reason d) ?asgs)"
  let ?wc = "weighted_choices ?av"
  let ?T = "sum_list (map av_weight ?av)"
  have loop: "filter_operators d ?asgs [] [] = Inr (?av, ?un)"
    using filter_operators_eq [OF ex, of "[]" "[]"] by simp
  from ne have asg_ne: "?asgs \<noteq> []" by auto
  have wpos: "list_all (\<lambda>x. 1 \<le> av_weight x) ?av"
    using pw asg_available_props [of _ d ?asgs]
    by (fastforce simp: list_all_iff positive_weights_def)
  from sum_weights_pos [OF ne wpos] have tot: "1 \<le> ?T" .
  have "list_all (\<lambda>x. 0 \<le> av_weight x) ?av"
    using wpos by (rule weights_nonneg)
  from length_weighted_choices [OF this] have len: "length ?wc = nat ?T" by simp
  with tot have wne: "?wc \<noteq> []" by auto
  from wne len have rc: "random_choice ?wc r = Inr (?wc ! (r mod nat ?T))"
    by (simp add: random_choice_def)
  have "select_operator d sid r =
          Inr (Some (?wc ! (r mod nat ?T)),
               txt_selected @ op_name (?wc ! (r mod nat ?T)) @ txt_from
                 @ distribution_desc ?av ?T @ '']'')"
    using asg_ne ne loop rc tot by (simp add: select_operator_unfold)
  with len tot show ?thesis by simp
qed






lemma three_assignments:
  "source_assignments example_db_three 1 =
     [\<lparr>asg_id = 1, operator_id = 1, source_id = 1, weight = 10\<rparr>,
      \<lparr>asg_id = 2, operator_id = 2, source_id = 1, weight = 30\<rparr>,
      \<lparr>asg_id = 3, operator_id = 3, source_id = 1, weight = 30\<rparr>,
      \<lparr>asg_id = 4, operator_id = 4, source_id = 1, weight = 30\<rparr>]"
  by (simp add: source_assignments_def example_db_three_def)

lemma three_get_operator:
  "get_operator example_db_three 1 = Some op_ann" "get_operator example_db_three 2 = Some op_bob"
  "get_operator example_db_three 3 = Some op_eve" "get_operator example_db_three 4 = Some op_dan"
  by (simp_all add: get_operator_def example_db_three_def op_ann_def op_bob_def op_eve_def
      op_dan_def)

lemma three_load: "get_active_contacts_count example_db_three k = 0"
  by (simp add: get_active_contacts_count_def example_db_three_def)

lemma three_eligible:
  "eligible example_db_three op_ann" "\<not> eligible example_db_three op_bob"
  "eligible example_db_three op_eve" "eligible example_db_three op_dan"
  by (simp_all add: eligible_def three_load)
     (simp_all add: op_ann_def op_bob_def op_eve_def op_dan_def)

lemma three_exist: "operators_exist example_db_three (source_assignments example_db_three 1)"
  by (simp add: three_assignments operators_exist_def three_get_operator)

lemma three_positive: "positive_weights (source_assignments example_db_three 1)"
  by (simp add: three_assignments positive_weights_def)


lemma three_available:
  "concat (map (asg_available example_db_three) (source_assignments example_db_three 1))
     = example_available_three"
  by (simp add: three_assignments asg_available_def three_get_operator three_eligible
      three_load example_available_three_def)

lemma three_total: "sum_list (map av_weight example_available_three) = 70"
  by (simp add: example_available_three_def)

lemma three_digits:
  "str_int 10 = ''10''" "str_int 14 = ''14''" "str_int 30 = ''30''" "str_int 42 = ''42''"
  by code_simp+

lemma three_desc:
  "txt_selected @ op_name op_eve @ txt_from @ distribution_desc example_available_three 70
     @ '']'' = example_rationale_three"
  by (simp add: distribution_desc_def example_available_three_def three_digits
      example_rationale_three_def op_ann_def op_eve_def op_dan_def)


lemma three_select:
  "select_operator example_db_three 1 12 = Inr (Some op_eve, example_rationale_three)"
proof -
  have ne: "concat (map (asg_available example_db_three)
                        (source_assignments example_db_three 1)) \<noteq> []"
    by (simp only: three_available) (simp add: example_available_three_def)
  have nth: "weighted_choices example_available_three ! 12 = op_eve"
    by (simp add: weighted_choices_def example_available_three_def nth_append)
  from select_operator_draw [OF three_exist three_positive ne, of 12]
  show ?thesis
    by (simp only: three_available three_total) (simp add: nth three_desc)
qed






theorem rationale_percentages_witness:
  "positive_weights (source_assignments example_db_three 1)
   \<and> select_operator example_db_three 1 12 = Inr (Some op_eve, example_rationale_three)
   \<and> example_rationale_three =
       txt_selected @ ''Eve'' @ txt_from @ ''Ann'' @ txt_weight @ ''10 (14%), Eve''
         @ txt_weight @ ''30 (42%), Dan'' @ txt_weight @ ''30 (42%)]''
   \<and> map (\<lambda>x. av_weight x * 100 div 70) example_available_three = [14, 42, 42]
   \<and> sum_list (map (\<lambda>x. av_weight x * 100 div 70) example_available_three) \<le> 100"
proof -
  from rationale_percentages [OF three_positive three_select]
  have rat: "example_rationale_three =
       txt_selected @ ''Eve'' @ txt_from @ ''Ann'' @ txt_weight @ ''10 (14%), Eve''
         @ txt_weight @ ''30 (42%), Dan'' @ txt_weight @ ''30 (42%)]''"
    and le: "sum_list (map (\<lambda>x. av_weight x * 100 div 70) example_available_three) \<le> 100"
    by (simp_all only: three_available three_total)
       (simp_all add: example_available_three_def three_digits op_ann_def op_eve_def op_dan_def)
  have pcts: "map (\<lambda>x. av_weight x * 100 div 70) example_available_three = [14, 42, 42]"
    by (simp add: example_available_three_def)
  from three_positive three_select rat pcts le show ?thesis by blast
qed

end
